theory Spec2Isabelle
  imports Main
begin

section \<open>JavaScript values\<close>

text \<open>
  The pipeline is JavaScript; every value it handles after \<open>JSON.parse\<close> is a JSON value.
  Text is modelled as \<^typ>\<open>string\<close>: a sequence of 8-bit characters, read as the code units
  U+0000 to U+00FF of a JavaScript string. A number is carried as a decimal mantissa and a
  power of ten (\<open>JNum m e\<close> is \<open>m * 10^e\<close>); \<open>JNaN\<close> is the number NaN, which no JSON text
  denotes and which only \<open>parseInt\<close> and \<open>parseFloat\<close> produce. An object is an association
  list with distinct keys in insertion order. An absent property (\<open>undefined\<close>) is \<open>None\<close>.
\<close>

datatype json =
    JNull
  | JBool bool
  | JNum int int
  | JNaN
  | JStr string
  | JArr "json list"
  | JObj "(string \<times> json) list"

datatype js_error =
    Error string
  | TypeError string
  | SyntaxError string
  | FsError string

text \<open>
  A decimal \<open>m * 10^e\<close> is read by JavaScript as the nearest double; it is the number zero
  exactly when its magnitude is at most \<open>2^-1075\<close>, half the least subnormal.
\<close>

definition num_is_zero :: "int \<Rightarrow> int \<Rightarrow> bool" where
  "num_is_zero m e =
     (if 0 \<le> e then m = 0 else \<bar>m\<bar> * 2 ^ 1075 \<le> 10 ^ nat (- e))"

text \<open>The truth test of \<open>if (v)\<close>, \<open>!v\<close>, \<open>a || b\<close> and \<open>a && b\<close> on a defined value.\<close>

fun truthy :: "json \<Rightarrow> bool" where
  "truthy JNull = False"
| "truthy (JBool b) = b"
| "truthy (JNum m e) = (\<not> num_is_zero m e)"
| "truthy JNaN = False"
| "truthy (JStr s) = (s \<noteq> [])"
| "truthy (JArr xs) = True"
| "truthy (JObj kvs) = True"

text \<open>The truth test on a possibly absent property: \<open>undefined\<close> is falsy.\<close>

fun truthy_opt :: "json option \<Rightarrow> bool" where
  "truthy_opt None = False"
| "truthy_opt (Some v) = truthy v"

text \<open>
  \<open>field v k\<close> is the read \<open>v.k\<close> for a key \<open>k\<close> that no prototype defines, on a value that is
  neither \<open>null\<close> nor \<open>undefined\<close>: the own property of an object, \<open>undefined\<close> on every other
  value (an array parsed from JSON has only indices and \<open>length\<close>).
\<close>

fun field :: "json \<Rightarrow> string \<Rightarrow> json option" where
  "field (JObj kvs) k = map_of kvs k"
| "field v k = None"

text \<open>\<open>obj[k] = v\<close> on an association list: overwrite in place, or append a new key.\<close>

fun assoc_set :: "(string \<times> json) list \<Rightarrow> string \<Rightarrow> json \<Rightarrow> (string \<times> json) list" where
  "assoc_set [] k v = [(k, v)]"
| "assoc_set ((k', v') # kvs) k v =
     (if k' = k then (k, v) # kvs else (k', v') # assoc_set kvs k v)"

text \<open>\<open>delete obj[k]\<close>.\<close>

definition assoc_delete :: "(string \<times> json) list \<Rightarrow> string \<Rightarrow> (string \<times> json) list" where
  "assoc_delete kvs k = filter (\<lambda>kv. fst kv \<noteq> k) kvs"

section \<open>Configuration loader: \<open>lib/config-loader.js\<close>\<close>

text \<open>
  The loaded configuration \<open>this.config\<close>. Only the two parts the provider queries read are
  kept: \<open>config.providers\<close> (absent, or an object from provider name to that provider's
  settings) and \<open>config.execution?.timeout_seconds\<close>.
\<close>

record config =
  providers :: "(string \<times> json) list option"
  execution_timeout_seconds :: "json option"

text \<open>
  The keys every object inherits from \<open>Object.prototype\<close>. A read \<open>providers[name]\<close> with one of
  these names finds the inherited member when the object has no own property of that name.
\<close>

definition object_prototype_keys :: "string list" where
  "object_prototype_keys =
     [''constructor'', ''__defineGetter__'', ''__defineSetter__'', ''hasOwnProperty'',
      ''__lookupGetter__'', ''__lookupSetter__'', ''isPrototypeOf'', ''propertyIsEnumerable'',
      ''toString'', ''valueOf'', ''__proto__'', ''toLocaleString'']"

text \<open>
  The result of a computed read \<open>obj[k]\<close>: \<open>undefined\<close>, an own JSON value, or an inherited
  built-in (a function or the prototype object itself: truthy, with no property the pipeline
  names and no enumerable own property).
\<close>

datatype jsval = Undefined | Val json | Builtin

definition lookup :: "(string \<times> json) list \<Rightarrow> string \<Rightarrow> jsval" where
  "lookup kvs k =
     (case map_of kvs k of
        Some v \<Rightarrow> Val v
      | None \<Rightarrow> if k \<in> set object_prototype_keys then Builtin else Undefined)"

text \<open>\<open>this.config.providers?.[provider]\<close>\<close>

definition provider_entry :: "config \<Rightarrow> string \<Rightarrow> jsval" where
  "provider_entry cfg provider =
     (case providers cfg of None \<Rightarrow> Undefined | Some ps \<Rightarrow> lookup ps provider)"

text \<open>
  \<open>isProviderEnabled(provider) { return this.config.providers?.[provider]?.enabled !== false; }\<close>
\<close>

definition isProviderEnabled :: "config \<Rightarrow> string \<Rightarrow> bool" where
  "isProviderEnabled cfg provider =
     (case provider_entry cfg provider of
        Undefined \<Rightarrow> True
      | Builtin \<Rightarrow> True
      | Val v \<Rightarrow> field v ''enabled'' \<noteq> Some (JBool False))"

text \<open>Decimal digits of an array index, as a property key.\<close>

fun string_of_nat :: "nat \<Rightarrow> string" where
  "string_of_nat n =
     (if n < 10 then [char_of (48 + n)]
      else string_of_nat (n div 10) @ [char_of (48 + n mod 10)])"

declare string_of_nat.simps [simp del]

text \<open>
  The object spread \<open>{...v}\<close>: the enumerable own properties of \<open>v\<close>. An object gives its
  properties, an array and a string give one property per index, every other value none.
\<close>

fun spread :: "json \<Rightarrow> (string \<times> json) list" where
  "spread (JObj kvs) = kvs"
| "spread (JArr xs) = map (\<lambda>i. (string_of_nat i, xs ! i)) [0..<length xs]"
| "spread (JStr s) = map (\<lambda>i. (string_of_nat i, JStr [s ! i])) [0..<length s]"
| "spread v = []"

text \<open>\<open>a || b\<close> on possibly absent values: the left operand when truthy, else the right.\<close>

definition js_or :: "json option \<Rightarrow> json option \<Rightarrow> json option" where
  "js_or a b = (if truthy_opt a then a else b)"

text \<open>
  \<^verbatim>\<open>
  getProviderConfig(provider) {
    const providerConfig = this.config.providers?.[provider];
    if (!providerConfig) {
      throw new Error(`Provider '${provider}' not configured`);
    }
    const timeout = providerConfig.timeout_override || this.config.execution?.timeout_seconds || 120;
    return { ...providerConfig, timeout };
  }
  \<close>
\<close>

definition not_configured :: "string \<Rightarrow> js_error" where
  "not_configured provider = Error (''Provider '' @ [CHR 0x27] @ provider @ [CHR 0x27] @ '' not configured'')"

definition with_timeout :: "config \<Rightarrow> json option \<Rightarrow> (string \<times> json) list \<Rightarrow> (string \<times> json) list" where
  "with_timeout cfg timeout_override kvs =
     assoc_set kvs ''timeout''
       (case js_or (js_or timeout_override (execution_timeout_seconds cfg)) (Some (JNum 120 0)) of
          Some t \<Rightarrow> t | None \<Rightarrow> JNum 120 0)"

definition getProviderConfig :: "config \<Rightarrow> string \<Rightarrow> js_error + (string \<times> json) list" where
  "getProviderConfig cfg provider =
     (case provider_entry cfg provider of
        Undefined \<Rightarrow> Inl (not_configured provider)
      | Builtin \<Rightarrow> Inr (with_timeout cfg None [])
      | Val v \<Rightarrow>
          if \<not> truthy v then Inl (not_configured provider)
          else Inr (with_timeout cfg (field v ''timeout_override'') (spread v)))"

section \<open>Command builder: \<open>lib/command-builder.js\<close>\<close>

text \<open>
  The descriptor the builder returns and the executor consumes. \<open>timeout\<close> is in seconds as
  the descriptor carries it; \<open>rawOutputFile\<close> is set for codex only.
\<close>

record command =
  command :: string
  args :: "string list"
  stdin :: "string option"
  env :: "(string \<times> string) list"
  timeout :: "json option"
  outputFile :: string
  rawOutputFile :: "string option"
  workingDirectory :: string

text \<open>
  What \<open>buildCommand\<close> reads from outside: the outcome of \<open>this.configLoader.load()\<close>, and
  the provider-specific tail (reading the manifest, detecting the binary, assembling the
  prompt and the descriptor), which runs only for a whitelisted provider.
\<close>

record builder_env =
  load_configuration :: "js_error + config"
  build_provider_command :: "string \<Rightarrow> (string \<times> json) list \<Rightarrow> js_error + command"

definition ALLOWED_PROVIDERS :: "string list" where
  "ALLOWED_PROVIDERS = [''claude'', ''codex'', ''gemini'']"

text \<open>
  \<^verbatim>\<open>
  async buildCommand(provider, options = {}) {
    const config = await this.loadConfiguration();
    if (!config.isProviderEnabled(provider)) { return null; }
    const providerConfig = config.getProviderConfig(provider);
    const ALLOWED_PROVIDERS = ['claude', 'codex', 'gemini'];
    if (!ALLOWED_PROVIDERS.includes(provider)) { return null; }
    const manifest = JSON.parse(await fs.readFile(manifestPath, 'utf8'));
    switch (provider) { case 'claude': ... case 'codex': ... case 'gemini': ... default: return null; }
  }
  \<close>
  \<open>Inl\<close> is a rejected promise (a thrown error), \<open>Inr None\<close> is \<open>null\<close>.
\<close>

definition buildCommand :: "builder_env \<Rightarrow> string \<Rightarrow> js_error + command option" where
  "buildCommand benv provider =
     (case load_configuration benv of
        Inl e \<Rightarrow> Inl e
      | Inr cfg \<Rightarrow>
          if \<not> isProviderEnabled cfg provider then Inr None
          else (case getProviderConfig cfg provider of
                  Inl e \<Rightarrow> Inl e
                | Inr providerConfig \<Rightarrow>
                    if provider \<notin> set ALLOWED_PROVIDERS then Inr None
                    else (case build_provider_command benv provider providerConfig of
                            Inl e \<Rightarrow> Inl e
                          | Inr cmd \<Rightarrow> Inr (Some cmd))))"

text \<open>
  \<open>getMinimalDefaults()\<close>: the configuration the loader falls back to, with the three
  supported providers enabled.
\<close>

definition minimal_defaults :: config where
  "minimal_defaults =
     \<lparr> providers = Some
         [(''claude'', JObj [(''enabled'', JBool True), (''model'', JStr ''sonnet''),
             (''flags'', JObj [(''permission_mode'', JStr ''default''), (''output_format'', JStr ''json'')])]),
          (''codex'', JObj [(''enabled'', JBool True), (''model'', JStr ''gpt-5''),
             (''reasoning_effort'', JStr ''low''), (''sandbox_mode'', JStr ''read-only'')]),
          (''gemini'', JObj [(''enabled'', JBool True), (''model'', JStr ''gemini-2.5-pro'')])],
       execution_timeout_seconds = Some (JNum 120 0) \<rparr>"


section \<open>\<open>JSON.parse\<close>\<close>

text \<open>
  \<open>JSON.parse\<close> is the language's own function; it is modelled after the JSON grammar of
  ECMA-404 as a pushdown automaton that reads the text one character at a time. The stack
  holds the arrays and objects that are still open; a duplicate key overwrites the earlier
  value. The result is \<open>None\<close> where \<open>JSON.parse\<close> throws a \<open>SyntaxError\<close>. An escape
  \<open>\uXXXX\<close> yields the character with that code modulo 256, the range of \<^typ>\<open>char\<close>.
\<close>

datatype frame = FArr "json list" | FObj "(string \<times> json) list" "string option"

datatype nphase = NMinus | NZero | NInt | NDot | NFrac | NE | NESign | NExp

datatype pmode =
    PValue | PValueOrEnd | PKeyOrEnd | PKey | PColon | PAfter
  | PStr string bool
  | PEsc string bool
  | PUni string bool nat nat
  | PLit string json
  | PNum nphase bool nat nat bool nat
  | PFail

type_synonym parser = "pmode \<times> frame list \<times> json option"

definition json_ws :: "char \<Rightarrow> bool" where
  "json_ws c = (c = CHR 0x20 \<or> c = CHR 0x09 \<or> c = CHR 0x0A \<or> c = CHR 0x0D)"

definition is_digit :: "char \<Rightarrow> bool" where
  "is_digit c = (48 \<le> (of_char c :: nat) \<and> (of_char c :: nat) \<le> 57)"

definition digit_val :: "char \<Rightarrow> nat" where
  "digit_val c = of_char c - 48"

definition hex_val :: "char \<Rightarrow> nat option" where
  "hex_val c =
     (let n = (of_char c :: nat) in
      if 48 \<le> n \<and> n \<le> 57 then Some (n - 48)
      else if 65 \<le> n \<and> n \<le> 70 then Some (n - 55)
      else if 97 \<le> n \<and> n \<le> 102 then Some (n - 87)
      else None)"

definition parse_failed :: parser where
  "parse_failed = (PFail, [], None)"

text \<open>A value is complete: it is the whole text's value, or goes into the open container.\<close>

fun emit :: "json \<Rightarrow> frame list \<Rightarrow> parser" where
  "emit v [] = (PAfter, [], Some v)"
| "emit v (FArr xs # st) = (PAfter, FArr (v # xs) # st, None)"
| "emit v (FObj kvs (Some k) # st) = (PAfter, FObj (assoc_set kvs k v) None # st, None)"
| "emit v (FObj kvs None # st) = parse_failed"

fun end_string :: "string \<Rightarrow> bool \<Rightarrow> frame list \<Rightarrow> parser" where
  "end_string s False st = emit (JStr s) st"
| "end_string s True (FObj kvs None # st) = (PColon, FObj kvs (Some s) # st, None)"
| "end_string s True st = parse_failed"

definition start_value :: "char \<Rightarrow> frame list \<Rightarrow> parser" where
  "start_value c st =
     (if c = CHR ''{'' then (PKeyOrEnd, FObj [] None # st, None)
      else if c = CHR ''['' then (PValueOrEnd, FArr [] # st, None)
      else if c = CHR 0x22 then (PStr [] False, st, None)
      else if c = CHR ''-'' then (PNum NMinus True 0 0 False 0, st, None)
      else if c = CHR ''0'' then (PNum NZero False 0 0 False 0, st, None)
      else if is_digit c then (PNum NInt False (digit_val c) 0 False 0, st, None)
      else if c = CHR ''t'' then (PLit ''rue'' (JBool True), st, None)
      else if c = CHR ''f'' then (PLit ''alse'' (JBool False), st, None)
      else if c = CHR ''n'' then (PLit ''ull'' JNull, st, None)
      else parse_failed)"

fun close_array :: "frame list \<Rightarrow> parser" where
  "close_array (FArr xs # st) = emit (JArr (rev xs)) st"
| "close_array st = parse_failed"

fun close_object :: "frame list \<Rightarrow> parser" where
  "close_object (FObj kvs None # st) = emit (JObj kvs) st"
| "close_object st = parse_failed"

fun after_comma :: "frame list \<Rightarrow> parser" where
  "after_comma (FArr xs # st) = (PValue, FArr xs # st, None)"
| "after_comma (FObj kvs None # st) = (PKey, FObj kvs None # st, None)"
| "after_comma st = parse_failed"

definition after_value :: "char \<Rightarrow> frame list \<Rightarrow> json option \<Rightarrow> parser" where
  "after_value c st res =
     (if json_ws c then (PAfter, st, res)
      else if c = CHR '','' then after_comma st
      else if c = CHR '']'' then close_array st
      else if c = CHR ''}'' then close_object st
      else parse_failed)"

text \<open>
  A number \<open>-? int frac? exp?\<close>: the digits of the integer and fraction parts are gathered
  in one mantissa, the number of fraction digits is taken off the exponent.
\<close>

definition number_value :: "bool \<Rightarrow> nat \<Rightarrow> nat \<Rightarrow> bool \<Rightarrow> nat \<Rightarrow> json" where
  "number_value neg mant fdig eneg ex =
     JNum (if neg then - int mant else int mant)
          ((if eneg then - int ex else int ex) - int fdig)"

definition number_complete :: "nphase \<Rightarrow> bool" where
  "number_complete ph = (ph = NZero \<or> ph = NInt \<or> ph = NFrac \<or> ph = NExp)"

definition end_number :: "nphase \<Rightarrow> bool \<Rightarrow> nat \<Rightarrow> nat \<Rightarrow> bool \<Rightarrow> nat \<Rightarrow> frame list \<Rightarrow> parser" where
  "end_number ph neg mant fdig eneg ex st =
     (if number_complete ph then emit (number_value neg mant fdig eneg ex) st else parse_failed)"

definition number_step ::
  "nphase \<Rightarrow> bool \<Rightarrow> nat \<Rightarrow> nat \<Rightarrow> bool \<Rightarrow> nat \<Rightarrow> char \<Rightarrow> frame list \<Rightarrow> parser" where
  "number_step ph neg mant fdig eneg ex c st =
     (if is_digit c \<and> ph = NMinus then
        (PNum (if c = CHR ''0'' then NZero else NInt) neg (digit_val c) 0 eneg ex, st, None)
      else if is_digit c \<and> ph = NInt then
        (PNum NInt neg (10 * mant + digit_val c) fdig eneg ex, st, None)
      else if is_digit c \<and> (ph = NDot \<or> ph = NFrac) then
        (PNum NFrac neg (10 * mant + digit_val c) (Suc fdig) eneg ex, st, None)
      else if is_digit c \<and> (ph = NE \<or> ph = NESign \<or> ph = NExp) then
        (PNum NExp neg mant fdig eneg (10 * ex + digit_val c), st, None)
      else if c = CHR ''.'' \<and> (ph = NZero \<or> ph = NInt) then
        (PNum NDot neg mant fdig eneg ex, st, None)
      else if (c = CHR ''e'' \<or> c = CHR ''E'') \<and> (ph = NZero \<or> ph = NInt \<or> ph = NFrac) then
        (PNum NE neg mant fdig eneg ex, st, None)
      else if (c = CHR ''+'' \<or> c = CHR ''-'') \<and> ph = NE then
        (PNum NESign neg mant fdig (c = CHR ''-'') ex, st, None)
      else (case end_number ph neg mant fdig eneg ex st of
              (PAfter, st', res) \<Rightarrow> after_value c st' res
            | p \<Rightarrow> parse_failed))"

definition escape_char :: "char \<Rightarrow> char option" where
  "escape_char c =
     (if c = CHR 0x22 \<or> c = CHR 0x5C \<or> c = CHR ''/'' then Some c
      else if c = CHR ''b'' then Some (CHR 0x08)
      else if c = CHR ''f'' then Some (CHR 0x0C)
      else if c = CHR ''n'' then Some (CHR 0x0A)
      else if c = CHR ''r'' then Some (CHR 0x0D)
      else if c = CHR ''t'' then Some (CHR 0x09)
      else None)"

fun parse_step :: "parser \<Rightarrow> char \<Rightarrow> parser" where
  "parse_step (PValue, st, res) c =
     (if json_ws c then (PValue, st, res) else start_value c st)"
| "parse_step (PValueOrEnd, st, res) c =
     (if json_ws c then (PValueOrEnd, st, res)
      else if c = CHR '']'' then close_array st
      else start_value c st)"
| "parse_step (PKeyOrEnd, st, res) c =
     (if json_ws c then (PKeyOrEnd, st, res)
      else if c = CHR ''}'' then close_object st
      else if c = CHR 0x22 then (PStr [] True, st, None)
      else parse_failed)"
| "parse_step (PKey, st, res) c =
     (if json_ws c then (PKey, st, res)
      else if c = CHR 0x22 then (PStr [] True, st, None)
      else parse_failed)"
| "parse_step (PColon, st, res) c =
     (if json_ws c then (PColon, st, res)
      else if c = CHR '':'' then (PValue, st, None)
      else parse_failed)"
| "parse_step (PAfter, st, res) c = after_value c st res"
| "parse_step (PStr acc k, st, res) c =
     (if c = CHR 0x22 then end_string (rev acc) k st
      else if c = CHR 0x5C then (PEsc acc k, st, None)
      else if (of_char c :: nat) < 32 then parse_failed
      else (PStr (c # acc) k, st, None))"
| "parse_step (PEsc acc k, st, res) c =
     (if c = CHR ''u'' then (PUni acc k 0 0, st, None)
      else (case escape_char c of
              Some d \<Rightarrow> (PStr (d # acc) k, st, None)
            | None \<Rightarrow> parse_failed))"
| "parse_step (PUni acc k n v, st, res) c =
     (case hex_val c of
        None \<Rightarrow> parse_failed
      | Some d \<Rightarrow>
          if n = 3 then (PStr (char_of (16 * v + d) # acc) k, st, None)
          else (PUni acc k (Suc n) (16 * v + d), st, None))"
| "parse_step (PLit lit v, st, res) c =
     (case lit of
        [] \<Rightarrow> parse_failed
      | x # rest \<Rightarrow>
          if c \<noteq> x then parse_failed
          else if rest = [] then emit v st
          else (PLit rest v, st, None))"
| "parse_step (PNum ph neg mant fdig eneg ex, st, res) c =
     number_step ph neg mant fdig eneg ex c st"
| "parse_step (PFail, st, res) c = parse_failed"

fun parse_finish :: "parser \<Rightarrow> json option" where
  "parse_finish (PAfter, [], Some v) = Some v"
| "parse_finish (PNum ph neg mant fdig eneg ex, [], res) =
     (if number_complete ph then Some (number_value neg mant fdig eneg ex) else None)"
| "parse_finish p = None"

definition JSON_parse :: "string \<Rightarrow> json option" where
  "JSON_parse text = parse_finish (foldl parse_step (PValue, [], None) text)"


section \<open>Strings, numbers and conversions of the language\<close>

text \<open>
  White space as \<open>String.prototype.trim\<close> and the regular-expression class \<open>\s\<close> see it,
  within the 8-bit range: tab, line feed, vertical tab, form feed, carriage return, space
  and the no-break space.
\<close>

definition js_space :: "char \<Rightarrow> bool" where
  "js_space c = (let n = (of_char c :: nat) in (9 \<le> n \<and> n \<le> 13) \<or> n = 32 \<or> n = 160)"

definition trim :: "string \<Rightarrow> string" where
  "trim s = rev (dropWhile js_space (rev (dropWhile js_space s)))"

definition startsWith :: "string \<Rightarrow> string \<Rightarrow> bool" where
  "startsWith s p = (take (length p) s = p)"

text \<open>\<open>s.str_includes(p)\<close>: \<open>p\<close> occurs in \<open>s\<close> as a contiguous substring.\<close>

fun str_includes :: "string \<Rightarrow> string \<Rightarrow> bool" where
  "str_includes [] p = (p = [])"
| "str_includes (c # cs) p = (startsWith (c # cs) p \<or> str_includes cs p)"

text \<open>\<open>s.indexOf(p)\<close>, with \<open>None\<close> for \<open>-1\<close>.\<close>

fun indexOf :: "string \<Rightarrow> string \<Rightarrow> nat option" where
  "indexOf [] p = (if p = [] then Some 0 else None)"
| "indexOf (c # cs) p =
     (if startsWith (c # cs) p then Some 0 else map_option Suc (indexOf cs p))"

text \<open>\<open>s.lastIndexOf(c)\<close> for a single character, as the integer JavaScript returns.\<close>

fun lastIndexOf :: "string \<Rightarrow> char \<Rightarrow> int" where
  "lastIndexOf [] c = - 1"
| "lastIndexOf (x # xs) c =
     (let r = lastIndexOf xs c in
      if 0 \<le> r then r + 1 else if x = c then 0 else - 1)"

text \<open>
  \<open>toLowerCase\<close> within the 8-bit range: the letters A to Z and the Latin-1 capitals
  U+00C0 to U+00DE, the multiplication sign U+00D7 excepted.
\<close>

definition lower_char :: "char \<Rightarrow> char" where
  "lower_char c =
     (let n = (of_char c :: nat) in
      if (65 \<le> n \<and> n \<le> 90) \<or> (192 \<le> n \<and> n \<le> 222 \<and> n \<noteq> 215) then char_of (n + 32) else c)"

definition toLowerCase :: "string \<Rightarrow> string" where
  "toLowerCase s = map lower_char s"

text \<open>\<open>s.split(c)\<close> for a single character: always at least one piece.\<close>

fun split_on :: "char \<Rightarrow> string \<Rightarrow> string list" where
  "split_on sep [] = [[]]"
| "split_on sep (c # cs) =
     (if c = sep then [] # split_on sep cs
      else (case split_on sep cs of
              l # ls \<Rightarrow> (c # l) # ls
            | [] \<Rightarrow> [[c]]))"

definition split_lines :: "string \<Rightarrow> string list" where
  "split_lines s = split_on (CHR 0x0A) s"

text \<open>
  A double overflows to \<open>Infinity\<close> from \<open>2^1024 - 2^970\<close> on, the midpoint between the
  greatest finite double and \<open>2^1024\<close>.
\<close>

definition num_is_infinite :: "int \<Rightarrow> int \<Rightarrow> bool" where
  "num_is_infinite m e =
     (if 0 \<le> e then 2 ^ 1024 - 2 ^ 970 \<le> \<bar>m\<bar> * 10 ^ nat e
      else (2 ^ 1024 - 2 ^ 970) * 10 ^ nat (- e) \<le> \<bar>m\<bar>)"

text \<open>The value of a run of decimal digits.\<close>

definition digits_value :: "string \<Rightarrow> nat" where
  "digits_value ds = foldl (\<lambda>n c. 10 * n + digit_val c) 0 ds"

text \<open>
  \<open>parseInt(s, 10)\<close>: leading white space, an optional sign, then the longest run of
  digits; \<open>NaN\<close> when there is no digit.
\<close>

definition parseInt :: "string \<Rightarrow> json" where
  "parseInt s =
     (let t = dropWhile js_space s;
          neg = (t \<noteq> [] \<and> hd t = CHR ''-'');
          u = (if t \<noteq> [] \<and> (hd t = CHR ''-'' \<or> hd t = CHR ''+'') then tl t else t);
          ds = takeWhile is_digit u
      in if ds = [] then JNaN
         else JNum (if neg then - int (digits_value ds) else int (digits_value ds)) 0)"

text \<open>
  The longest prefix of a text that is a decimal literal \<open>StrDecimalLiteral\<close>: an optional
  sign, then \<open>Infinity\<close> or digits with an optional fraction and an optional exponent (which
  needs at least one digit). The result is the value and the rest of the text. \<open>Infinity\<close> is
  carried as a decimal that overflows.
\<close>

definition exponent_part :: "string \<Rightarrow> int \<times> string" where
  "exponent_part r =
     (if r \<noteq> [] \<and> (hd r = CHR ''e'' \<or> hd r = CHR ''E'') then
        (let r1 = tl r;
             eneg = (r1 \<noteq> [] \<and> hd r1 = CHR ''-'');
             r2 = (if r1 \<noteq> [] \<and> (hd r1 = CHR ''-'' \<or> hd r1 = CHR ''+'') then tl r1 else r1);
             es = takeWhile is_digit r2
         in if es = [] then (0, r)
            else (if eneg then - int (digits_value es) else int (digits_value es),
                  dropWhile is_digit r2))
      else (0, r))"

definition decimal_prefix :: "string \<Rightarrow> (json \<times> string) option" where
  "decimal_prefix t =
     (let neg = (t \<noteq> [] \<and> hd t = CHR ''-'');
          u = (if t \<noteq> [] \<and> (hd t = CHR ''-'' \<or> hd t = CHR ''+'') then tl t else t)
      in if startsWith u ''Infinity'' then Some (JNum (if neg then - 1 else 1) 400, drop 8 u)
         else
           (let ints = takeWhile is_digit u;
                r = dropWhile is_digit u;
                dot = (r \<noteq> [] \<and> hd r = CHR ''.'');
                fracs = (if dot then takeWhile is_digit (tl r) else []);
                r' = (if dot then dropWhile is_digit (tl r) else r);
                m = digits_value (ints @ fracs)
            in if ints = [] \<and> fracs = [] then None
               else (case exponent_part r' of
                       (ex, rest) \<Rightarrow>
                         Some (JNum (if neg then - int m else int m) (ex - int (length fracs)), rest))))"

text \<open>\<open>parseFloat(s)\<close>: leading white space is skipped; \<open>NaN\<close> when no literal starts the text.\<close>

definition parseFloat :: "string \<Rightarrow> json" where
  "parseFloat s = (case decimal_prefix (dropWhile js_space s) of None \<Rightarrow> JNaN | Some (v, rest) \<Rightarrow> v)"

text \<open>
  The conversion of a number to text (\<open>Number.prototype.toString\<close>, the shortest decimal that
  reads back as the same double) is the engine's; the definitions below take it as the
  parameter \<open>ns\<close>, applied to mantissa and exponent.
\<close>

type_synonym num_printer = "int \<Rightarrow> int \<Rightarrow> string"

definition join :: "string \<Rightarrow> string list \<Rightarrow> string" where
  "join sep xs = (case xs of [] \<Rightarrow> [] | y # ys \<Rightarrow> foldl (\<lambda>acc x. acc @ sep @ x) y ys)"

text \<open>
  \<open>String(v)\<close>, also the conversion inside a template literal: an array joins its elements
  with commas, \<open>null\<close> elements as the empty text; an object is \<open>[object Object]\<close>.
\<close>

fun to_text :: "num_printer \<Rightarrow> json \<Rightarrow> string" where
  "to_text ns JNull = ''null''"
| "to_text ns (JBool b) = (if b then ''true'' else ''false'')"
| "to_text ns (JNum m e) =
     (if num_is_infinite m e then (if m < 0 then ''-Infinity'' else ''Infinity'') else ns m e)"
| "to_text ns JNaN = ''NaN''"
| "to_text ns (JStr s) = s"
| "to_text ns (JArr xs) = join '','' (map (\<lambda>x. if x = JNull then [] else to_text ns x) xs)"
| "to_text ns (JObj kvs) = ''[object Object]''"

text \<open>\<open>JSON.stringify\<close> of a string: quotes, with the escapes the language prescribes.\<close>

definition hex_digit :: "nat \<Rightarrow> char" where
  "hex_digit n = (if n < 10 then char_of (48 + n) else char_of (87 + n))"

definition quote_char :: "char \<Rightarrow> string" where
  "quote_char c =
     (let n = (of_char c :: nat) in
      if c = CHR 0x22 then [CHR 0x5C, CHR 0x22]
      else if c = CHR 0x5C then [CHR 0x5C, CHR 0x5C]
      else if n = 8 then [CHR 0x5C, CHR ''b'']
      else if n = 12 then [CHR 0x5C, CHR ''f'']
      else if n = 10 then [CHR 0x5C, CHR ''n'']
      else if n = 13 then [CHR 0x5C, CHR ''r'']
      else if n = 9 then [CHR 0x5C, CHR ''t'']
      else if n < 32 then [CHR 0x5C, CHR ''u'', CHR ''0'', CHR ''0'', hex_digit (n div 16), hex_digit (n mod 16)]
      else [c])"

definition quote :: "string \<Rightarrow> string" where
  "quote s = [CHR 0x22] @ concat (map quote_char s) @ [CHR 0x22]"

text \<open>
  \<open>JSON.stringify(v)\<close> without indentation. \<open>NaN\<close> and the infinities print as \<open>null\<close>.
\<close>

fun stringify :: "num_printer \<Rightarrow> json \<Rightarrow> string" where
  "stringify ns JNull = ''null''"
| "stringify ns (JBool b) = (if b then ''true'' else ''false'')"
| "stringify ns (JNum m e) = (if num_is_infinite m e then ''null'' else ns m e)"
| "stringify ns JNaN = ''null''"
| "stringify ns (JStr s) = quote s"
| "stringify ns (JArr xs) = ''['' @ join '','' (map (stringify ns) xs) @ '']''"
| "stringify ns (JObj kvs) =
     ''{'' @ join '','' (map (\<lambda>kv. quote (fst kv) @ '':'' @ stringify ns (snd kv)) kvs) @ ''}''"

text \<open>\<open>typeof v === 'object'\<close> for a defined value: \<open>null\<close>, arrays and objects.\<close>

fun typeof_object :: "json \<Rightarrow> bool" where
  "typeof_object JNull = True"
| "typeof_object (JArr xs) = True"
| "typeof_object (JObj kvs) = True"
| "typeof_object v = False"

text \<open>Errors as values: sequencing, and mapping a function that may throw over a list.\<close>

fun and_then :: "'e + 'a \<Rightarrow> ('a \<Rightarrow> 'e + 'b) \<Rightarrow> 'e + 'b" where
  "and_then (Inl e) f = Inl e"
| "and_then (Inr x) f = f x"

fun map_throwing :: "('a \<Rightarrow> 'e + 'b) \<Rightarrow> 'a list \<Rightarrow> 'e + 'b list" where
  "map_throwing f [] = Inr []"
| "map_throwing f (x # xs) =
     (case f x of
        Inl e \<Rightarrow> Inl e
      | Inr y \<Rightarrow> (case map_throwing f xs of Inl e \<Rightarrow> Inl e | Inr ys \<Rightarrow> Inr (y # ys)))"


section \<open>Output normalizer, extraction: \<open>scripts/normalize-json.js\<close>\<close>

text \<open>
  What the script reads from its process: the environment variables, the clock
  (\<open>new Date().toISOString()\<close>), the file name argument \<open>process.argv[2]\<close> when there is one,
  and the engine's printing of numbers.
\<close>

record nenv =
  penv :: "string \<Rightarrow> string option"
  now :: string
  argv_file :: "string option"
  num_text :: num_printer

text \<open>\<open>process.env.NAME || dflt\<close>: an unset and an empty variable both give the default.\<close>

definition env_or :: "nenv \<Rightarrow> string \<Rightarrow> string \<Rightarrow> string" where
  "env_or ne name dflt = (case penv ne name of None \<Rightarrow> dflt | Some s \<Rightarrow> if s = [] then dflt else s)"

text \<open>\<open>tryParseJSON\<close> followed by the test \<open>p && typeof p === 'object'\<close>.\<close>

fun is_object :: "json \<Rightarrow> bool" where
  "is_object (JArr xs) = True"
| "is_object (JObj kvs) = True"
| "is_object v = False"

definition parse_object :: "string \<Rightarrow> json option" where
  "parse_object text =
     (case JSON_parse text of None \<Rightarrow> None | Some v \<Rightarrow> if is_object v then Some v else None)"

subsection \<open>The regular expressions\<close>

text \<open>
  Each regular expression of the script is written out as the search it performs: start
  positions are tried from the left, and at a start position the quantifiers are resolved as
  the backtracking matcher resolves them.
\<close>

definition backticks :: string where
  "backticks = [CHR 0x60, CHR 0x60, CHR 0x60]"

text \<open>
  After the opener of \<open>/```json\s*[\r\n]+([\s\S]*?)```/i\<close>: \<open>\s*\<close> gives back white space
  until \<open>[\r\n]+\<close> finds a line break, so the capture starts after the last line break of the
  leading white space, and runs to the next three backticks.
\<close>

definition last_line_break :: "string \<Rightarrow> nat option" where
  "last_line_break w =
     (let r = dropWhile (\<lambda>c. c \<noteq> CHR 0x0A \<and> c \<noteq> CHR 0x0D) (rev w)
      in if r = [] then None else Some (length r - 1))"

definition fence_text_at :: "string \<Rightarrow> string option" where
  "fence_text_at rest =
     (case last_line_break (takeWhile js_space rest) of
        None \<Rightarrow> None
      | Some k \<Rightarrow>
          (let body = drop (Suc k) rest
           in map_option (\<lambda>q. take q body) (indexOf body backticks)))"

text \<open>
  After the opener of \<open>/```json\s*\n?([\s\S]*?)\n?```/i\<close>: \<open>\s*\<close> keeps all the leading
  white space, and the capture ends before the first \<open>```\<close>, or before the line feed in front
  of it.
\<close>

definition fence_input_at :: "string \<Rightarrow> string option" where
  "fence_input_at rest =
     (let body = dropWhile js_space rest
      in map_option
           (\<lambda>q. let cap = take q body
                in if cap \<noteq> [] \<and> last cap = CHR 0x0A then butlast cap else cap)
           (indexOf body backticks))"

text \<open>
  The search for a fence: the opener is compared ignoring case (the flag \<open>i\<close>; only the
  letters of \<open>json\<close> are affected).
\<close>

fun fence_search :: "(string \<Rightarrow> string option) \<Rightarrow> string \<Rightarrow> string \<Rightarrow> string option" where
  "fence_search at opener [] = None"
| "fence_search at opener (c # cs) =
     (if toLowerCase (take (length opener) (c # cs)) = opener then
        (case at (drop (length opener) (c # cs)) of
           Some cap \<Rightarrow> Some cap
         | None \<Rightarrow> fence_search at opener cs)
      else fence_search at opener cs)"

text \<open>
  \<open>/\{[\s\S]*\}/\<close>: from the first opening brace to the last closing brace of the text.
\<close>

definition brace_match :: "string \<Rightarrow> string option" where
  "brace_match s =
     (case indexOf s ''{'' of
        None \<Rightarrow> None
      | Some i \<Rightarrow>
          (let j = lastIndexOf s (CHR ''}'')
           in if int i < j then Some (take (nat j - i + 1) (drop i s)) else None))"

text \<open>A pattern of literal characters and digits \<open>\d\<close>, matched at the head of a text.\<close>

datatype pat = PDigit | PChar char

fun match_prefix :: "pat list \<Rightarrow> string \<Rightarrow> bool" where
  "match_prefix [] s = True"
| "match_prefix (p # ps) [] = False"
| "match_prefix (PDigit # ps) (c # cs) = (is_digit c \<and> match_prefix ps cs)"
| "match_prefix (PChar x # ps) (c # cs) = (c = x \<and> match_prefix ps cs)"

fun find_pat :: "pat list \<Rightarrow> string \<Rightarrow> nat option" where
  "find_pat ps [] = (if ps = [] then Some 0 else None)"
| "find_pat ps (c # cs) =
     (if match_prefix ps (c # cs) then Some 0 else map_option Suc (find_pat ps cs))"

text \<open>\<open>\[\d{4}-\d{2}-\d{2}T\d{2}:\d{2}:\d{2}\]\<close>\<close>

definition timestamp_pat :: "pat list" where
  "timestamp_pat =
     [PChar (CHR ''[''), PDigit, PDigit, PDigit, PDigit, PChar (CHR ''-''), PDigit, PDigit,
      PChar (CHR ''-''), PDigit, PDigit, PChar (CHR ''T''), PDigit, PDigit, PChar (CHR '':''),
      PDigit, PDigit, PChar (CHR '':''), PDigit, PDigit, PChar (CHR '']'')]"

text \<open>\<open>codexMarker = /\[\d{4}-\d{2}-\d{2}T\d{2}:\d{2}:\d{2}\] codex\n/\<close>\<close>

definition codexMarker :: "pat list" where
  "codexMarker = timestamp_pat @ map PChar ('' codex'' @ [CHR 0x0A])"

text \<open>
  \<open>/\n\[\d{4}-\d{2}-\d{2}T\d{2}:\d{2}:\d{2}\] tokens used: \d+\s*$/\<close> matched at the head of
  \<open>s\<close>: after the literal part, digits, then only white space up to the end of the text.
\<close>

definition tokens_used_pat :: "pat list" where
  "tokens_used_pat = PChar (CHR 0x0A) # timestamp_pat @ map PChar '' tokens used: ''"

definition tokens_used_tail :: "string \<Rightarrow> bool" where
  "tokens_used_tail s =
     (match_prefix tokens_used_pat s \<and>
      (let r = drop (length tokens_used_pat) s
       in takeWhile is_digit r \<noteq> [] \<and> dropWhile js_space (dropWhile is_digit r) = []))"

fun strip_tokens_used :: "string \<Rightarrow> string" where
  "strip_tokens_used [] = []"
| "strip_tokens_used (c # cs) =
     (if tokens_used_tail (c # cs) then [] else c # strip_tokens_used cs)"

text \<open>
  \<open>.replace(/^Reading prompt from stdin\.\.\.\n/m, '')\<close>: the first occurrence that starts
  a line is removed. \<open>at_start\<close> tells whether the position starts a line.
\<close>

definition reading_prompt :: string where
  "reading_prompt = ''Reading prompt from stdin...'' @ [CHR 0x0A]"

fun remove_reading_prompt :: "bool \<Rightarrow> string \<Rightarrow> string" where
  "remove_reading_prompt at_start [] = []"
| "remove_reading_prompt at_start (c # cs) =
     (if at_start \<and> startsWith (c # cs) reading_prompt then drop (length reading_prompt) (c # cs)
      else c # remove_reading_prompt (c = CHR 0x0A \<or> c = CHR 0x0D) cs)"

subsection \<open>The first balanced bracket structure\<close>

text \<open>
  \<^verbatim>\<open>
  if (firstBrace >= 0 && (firstBracket < 0 || firstBrace < firstBracket)) {
    startIdx = firstBrace; endChar = '}';
  } else if (firstBracket >= 0) {
    startIdx = firstBracket; endChar = ']';
  }
  \<close>
\<close>

definition find_start :: "string \<Rightarrow> (nat \<times> char) option" where
  "find_start text =
     (case (indexOf text ''{'', indexOf text ''['') of
        (Some b, None) \<Rightarrow> Some (b, CHR ''}'')
      | (Some b, Some k) \<Rightarrow> if b < k then Some (b, CHR ''}'') else Some (k, CHR '']'')
      | (None, Some k) \<Rightarrow> Some (k, CHR '']'')
      | (None, None) \<Rightarrow> None)"

text \<open>
  The loop \<open>for (let i = startIdx; i < text.length; i++)\<close> that tracks string and escape
  state and the bracket depth; the result is \<open>endIdx\<close>, \<open>None\<close> for \<open>-1\<close>.
\<close>

fun scan_end :: "char \<Rightarrow> int \<Rightarrow> bool \<Rightarrow> bool \<Rightarrow> nat \<Rightarrow> string \<Rightarrow> nat option" where
  "scan_end endChar depth inString escaped i [] = None"
| "scan_end endChar depth inString escaped i (ch # cs) =
     (if escaped then scan_end endChar depth inString False (Suc i) cs
      else if ch = CHR 0x5C then scan_end endChar depth inString True (Suc i) cs
      else if ch = CHR 0x22 then scan_end endChar depth (\<not> inString) False (Suc i) cs
      else if inString then scan_end endChar depth inString False (Suc i) cs
      else if ch = CHR ''{'' \<or> ch = CHR ''['' then scan_end endChar (depth + 1) inString False (Suc i) cs
      else if ch = CHR ''}'' \<or> ch = CHR '']'' then
        (if depth - 1 = 0 \<and> ch = endChar then Some i
         else scan_end endChar (depth - 1) inString False (Suc i) cs)
      else scan_end endChar depth inString False (Suc i) cs)"

text \<open>The slice \<open>text.slice(startIdx, endIdx + 1)\<close> when both indices are found.\<close>

datatype balanced = NoStart | NoEnd | Slice string

definition balanced_slice :: "string \<Rightarrow> balanced" where
  "balanced_slice text =
     (case find_start text of
        None \<Rightarrow> NoStart
      | Some (startIdx, endChar) \<Rightarrow>
          (case scan_end endChar 0 False False startIdx (drop startIdx text) of
             None \<Rightarrow> NoEnd
           | Some endIdx \<Rightarrow> Slice (take (endIdx + 1 - startIdx) (drop startIdx text))))"

subsection \<open>\<open>extractJSONFromText\<close>\<close>

text \<open>
  Whole text, then the first \<open>```json\<close> fence, then the first plain fence, then the first
  balanced structure; each must parse to an object or array. Otherwise
  \<open>throw new Error('No JSON found in text')\<close>.
\<close>

definition first_some :: "'a option \<Rightarrow> 'a option \<Rightarrow> 'a option" where
  "first_some a b = (case a of Some x \<Rightarrow> Some x | None \<Rightarrow> b)"

definition extractJSONFromText :: "string \<Rightarrow> js_error + json" where
  "extractJSONFromText text =
     (case first_some (parse_object text)
            (first_some
               (case fence_search fence_text_at (backticks @ ''json'') text of
                  None \<Rightarrow> None | Some cap \<Rightarrow> parse_object cap)
               (first_some
                  (case fence_search fence_text_at backticks text of
                     None \<Rightarrow> None | Some cap \<Rightarrow> parse_object cap)
                  (case balanced_slice text of
                     Slice s \<Rightarrow> parse_object s | b \<Rightarrow> None))) of
        Some v \<Rightarrow> Inr v
      | None \<Rightarrow> Inl (Error ''No JSON found in text''))"

subsection \<open>\<open>attemptJSONRecovery\<close>\<close>

text \<open>
  The first loop: depth and string state at the end of the text, as
  \<open>(depth, inString, escapeNext)\<close>.
\<close>

fun recovery_state :: "int \<times> bool \<times> bool \<Rightarrow> char \<Rightarrow> int \<times> bool \<times> bool" where
  "recovery_state (depth, inString, escapeNext) ch =
     (if escapeNext then (depth, inString, False)
      else if ch = CHR 0x5C then (depth, inString, True)
      else if ch = CHR 0x22 \<and> \<not> inString then (depth, True, False)
      else if ch = CHR 0x22 \<and> inString then (depth, False, False)
      else if \<not> inString then
        (if ch = CHR ''{'' \<or> ch = CHR ''['' then (depth + 1, inString, False)
         else if ch = CHR ''}'' \<or> ch = CHR '']'' then (depth - 1, inString, False)
         else (depth, inString, False))
      else (depth, inString, False))"

text \<open>
  \<^verbatim>\<open>
  while (depth > 0) {
    const needsBrace = recovered.lastIndexOf('{') > recovered.lastIndexOf('[');
    recovered += needsBrace ? '}' : ']';
    depth--;
  }
  \<close>
\<close>

fun close_structures :: "nat \<Rightarrow> string \<Rightarrow> string" where
  "close_structures 0 recovered = recovered"
| "close_structures (Suc depth) recovered =
     close_structures depth
       (recovered @ (if lastIndexOf recovered (CHR ''{'') > lastIndexOf recovered (CHR ''['')
                     then ''}'' else '']''))"

text \<open>
  The text handed to the final \<open>JSON.parse\<close>: an open string is closed, a trailing colon
  gets \<open>null\<close>, a trailing comma loses the last character of the text
  (\<open>recovered.slice(0, -1)\<close>), and \<open>depth\<close> closers are appended.
\<close>

definition recovered_text :: "string \<Rightarrow> string" where
  "recovered_text jsonStr =
     (case foldl recovery_state (0, False, False) jsonStr of
        (depth, inString, escapeNext) \<Rightarrow>
          (let r1 = (if inString then jsonStr @ [CHR 0x22] else jsonStr);
               lastChar = (let t = trim r1 in if t = [] then [] else [last t]);
               r2 = (if lastChar = '':'' then r1 @ ''null''
                     else if lastChar = '','' then butlast r1
                     else r1)
           in close_structures (nat depth) r2))"

definition attemptJSONRecovery :: "string \<Rightarrow> json" where
  "attemptJSONRecovery jsonStr =
     (case JSON_parse (recovered_text jsonStr) of
        Some v \<Rightarrow> v
      | None \<Rightarrow>
          JObj [(''error'', JStr ''truncated_json''),
                (''partial_data'', JStr (take 500 jsonStr)),
                (''recovery_attempted'', JBool True)])"


subsection \<open>\<open>extractJSON\<close>\<close>

text \<open>
  \<^verbatim>\<open>
  function extractPRInfo() {
    return {
      repo: process.env.PR_REPO || 'unknown',
      number: parseInt(process.env.PR_NUMBER || '0', 10),
      head_sha: process.env.HEAD_SHA || '',
      branch: process.env.PR_BRANCH || 'unknown',
      link: process.env.RUN_URL || 'https://github.com/'
    };
  }
  \<close>
\<close>

definition extractPRInfo :: "nenv \<Rightarrow> json" where
  "extractPRInfo ne =
     JObj [(''repo'', JStr (env_or ne ''PR_REPO'' ''unknown'')),
           (''number'', parseInt (env_or ne ''PR_NUMBER'' ''0'')),
           (''head_sha'', JStr (env_or ne ''HEAD_SHA'' [])),
           (''branch'', JStr (env_or ne ''PR_BRANCH'' ''unknown'')),
           (''link'', JStr (env_or ne ''RUN_URL'' ''https://github.com/''))]"

definition tests_not_executed :: json where
  "tests_not_executed =
     JObj [(''executed'', JBool False), (''command'', JNull), (''exit_code'', JNull),
           (''summary'', JStr ''Tests not executed'')]"

text \<open>
  The output is a configuration file rather than a review:
  \<open>parsed && !parsed.tool && !parsed.findings && !parsed.summary &&
   (parsed.testing || parsed.review_overrides || parsed.providers)\<close>.
\<close>

definition looks_like_config :: "json \<Rightarrow> bool" where
  "looks_like_config parsed =
     (truthy parsed \<and> \<not> truthy_opt (field parsed ''tool'') \<and> \<not> truthy_opt (field parsed ''findings'')
      \<and> \<not> truthy_opt (field parsed ''summary'')
      \<and> (truthy_opt (field parsed ''testing'') \<or> truthy_opt (field parsed ''review_overrides'')
           \<or> truthy_opt (field parsed ''providers'')))"

definition config_echo_report :: "nenv \<Rightarrow> json" where
  "config_echo_report ne =
     JObj [(''tool'', JStr (env_or ne ''TOOL'' ''unknown'')),
           (''model'', JStr (env_or ne ''MODEL'' ''unknown'')),
           (''timestamp'', JStr (now ne)),
           (''pr'', extractPRInfo ne),
           (''summary'', JStr ''Provider output appears to be a configuration file rather than a review''),
           (''assumptions'', JArr []),
           (''findings'', JArr []),
           (''metrics'', JObj []),
           (''evidence'', JArr []),
           (''tests'', tests_not_executed),
           (''exit_criteria'',
              JObj [(''ready_for_pr'', JBool False),
                    (''reasons'',
                       JArr [JStr ''Provider did not produce a valid review - output was configuration data''])]),
           (''error'', JStr ''invalid_output_format'')]"

text \<open>
  \<open>parsed && parsed.type === 'result' && parsed.subtype === 'error_during_execution'\<close>
\<close>

definition is_claude_error :: "json \<Rightarrow> bool" where
  "is_claude_error parsed =
     (truthy parsed \<and> field parsed ''type'' = Some (JStr ''result'')
      \<and> field parsed ''subtype'' = Some (JStr ''error_during_execution''))"

definition or_zero :: "json option \<Rightarrow> json" where
  "or_zero v = (case js_or v (Some (JNum 0 0)) of Some x \<Rightarrow> x | None \<Rightarrow> JNum 0 0)"

definition claude_error_report :: "nenv \<Rightarrow> json \<Rightarrow> json" where
  "claude_error_report ne parsed =
     JObj [(''tool'', JStr (env_or ne ''TOOL'' ''claude-code'')),
           (''model'', JStr (env_or ne ''MODEL'' ''opus'')),
           (''timestamp'', JStr (now ne)),
           (''pr'', extractPRInfo ne),
           (''summary'', JStr ''Claude encountered an error during execution and could not complete the review''),
           (''assumptions'', JArr []),
           (''findings'', JArr []),
           (''metrics'',
              JObj [(''duration_ms'', or_zero (field parsed ''duration_ms'')),
                    (''cost_usd'', or_zero (field parsed ''total_cost_usd''))]),
           (''evidence'', JArr []),
           (''tests'', tests_not_executed),
           (''exit_criteria'',
              JObj [(''ready_for_pr'', JBool False),
                    (''reasons'', JArr [JStr ''Claude error during execution - review could not be completed''])]),
           (''error'', JStr ''claude_execution_error'')]"

text \<open>
  The report built when the envelope's \<open>result\<close> is a string with no JSON in it. The em dash
  U+2014 of the source's literal lies outside the 8-bit range; it is written here as its
  three UTF-8 bytes.
\<close>

definition unstructured_report :: "nenv \<Rightarrow> json \<Rightarrow> string \<Rightarrow> json" where
  "unstructured_report ne parsed resultStr =
     JObj [(''tool'', JStr ''claude-code''),
           (''model'', (case js_or (field parsed ''model'') (Some (JStr ''sonnet'')) of
                          Some m \<Rightarrow> m | None \<Rightarrow> JStr ''sonnet'')),
           (''timestamp'', JStr (now ne)),
           (''pr'', JObj [(''repo'', JStr ''unknown''), (''number'', JNum 0 0), (''head_sha'', JStr []),
                         (''branch'', JStr ''unknown''), (''link'', JStr ''https://github.com/'')]),
           (''summary'',
              JStr (trim resultStr @ '' '' @ [CHR 0xE2, CHR 0x80, CHR 0x94]
                    @ '' [normalized unstructured output]'')),
           (''assumptions'', JArr []), (''findings'', JArr []), (''metrics'', JObj []),
           (''evidence'', JArr []),
           (''tests'', tests_not_executed),
           (''exit_criteria'',
              JObj [(''ready_for_pr'', JBool False),
                    (''reasons'', JArr [JStr ''claude result was unstructured; normalized without findings''])]),
           (''error'', JStr ''unstructured_output'')]"

text \<open>
  Step 1 of \<open>extractJSON\<close>, for an input that parsed as a whole. \<open>Some v\<close> is \<open>return v\<close>;
  \<open>None\<close> is falling through to the text extraction.
\<close>

definition whole_json :: "nenv \<Rightarrow> json \<Rightarrow> json option" where
  "whole_json ne parsed =
     (if looks_like_config parsed then Some (config_echo_report ne)
      else if is_claude_error parsed then Some (claude_error_report ne parsed)
      else
        (case (if truthy parsed \<and> field parsed ''type'' = Some (JStr ''result'')
               then field parsed ''result'' else None) of
           Some (JStr resultStr) \<Rightarrow>
             (case parse_object resultStr of
                Some direct \<Rightarrow> Some direct
              | None \<Rightarrow>
                  (case extractJSONFromText resultStr of
                     Inr v \<Rightarrow> Some v
                   | Inl e \<Rightarrow> Some (unstructured_report ne parsed resultStr)))
         | Some JNull \<Rightarrow> Some JNull
         | Some (JArr xs) \<Rightarrow> Some (JArr xs)
         | Some (JObj kvs) \<Rightarrow> Some (JObj kvs)
         | other \<Rightarrow>
             if truthy parsed \<and> truthy_opt (field parsed ''tool'') \<and> truthy_opt (field parsed ''model'')
                \<and> field parsed ''findings'' \<noteq> None
             then Some parsed else None))"

text \<open>
  Step 2, one line of an event stream. Everything inside the loop body's \<open>try\<close> that throws
  makes the loop go on to the line before: \<open>None\<close>. \<open>Some v\<close> is \<open>return v\<close>.
\<close>

definition parse_braces :: "string \<Rightarrow> json option option" where
  "parse_braces s =
     (case brace_match s of
        None \<Rightarrow> None
      | Some m \<Rightarrow> Some (JSON_parse m))"

definition event_tail :: "json \<Rightarrow> json option" where
  "event_tail event =
     (if truthy_opt (field event ''tool'') \<and> truthy_opt (field event ''model'')
         \<and> truthy_opt (field event ''findings'')
      then Some event else None)"

definition event_content :: "json \<Rightarrow> json option" where
  "event_content event =
     (case field event ''content'' of
        None \<Rightarrow> event_tail event
      | Some c \<Rightarrow>
          if \<not> truthy c then event_tail event
          else (case c of
                  JStr s \<Rightarrow> (case parse_braces s of
                               None \<Rightarrow> event_tail event
                             | Some r \<Rightarrow> r)
                | other \<Rightarrow> None))"

definition event_output :: "num_printer \<Rightarrow> json \<Rightarrow> json option" where
  "event_output ns event =
     (case field event ''output'' of
        None \<Rightarrow> event_content event
      | Some out \<Rightarrow>
          if \<not> truthy out then event_content event
          else (case JSON_parse (to_text ns out) of
                  Some v \<Rightarrow> Some v
                | None \<Rightarrow>
                    (case out of
                       JStr s \<Rightarrow> (case parse_braces s of
                                    None \<Rightarrow> event_content event
                                  | Some r \<Rightarrow> r)
                     | other \<Rightarrow> None)))"

definition jsonl_line :: "num_printer \<Rightarrow> string \<Rightarrow> json option" where
  "jsonl_line ns line =
     (case JSON_parse line of
        None \<Rightarrow> None
      | Some JNull \<Rightarrow> None
      | Some event \<Rightarrow>
          if field event ''type'' = Some (JStr ''model_output'')
             \<or> field event ''type'' = Some (JStr ''final_result'')
          then event_output ns event
          else event_tail event)"

text \<open>The loop \<open>for (let i = lines.length - 1; i >= 0; i--)\<close>, over the lines last to first.\<close>

fun jsonl_scan :: "num_printer \<Rightarrow> string list \<Rightarrow> json option" where
  "jsonl_scan ns [] = None"
| "jsonl_scan ns (l # ls) =
     (if trim l = [] then jsonl_scan ns ls
      else (case jsonl_line ns (trim l) of
              Some v \<Rightarrow> Some v
            | None \<Rightarrow> jsonl_scan ns ls))"

definition jsonl :: "num_printer \<Rightarrow> string \<Rightarrow> json option" where
  "jsonl ns input =
     (let lines = split_lines (trim input)
      in if length lines > 1 \<and> startsWith (trim (hd lines)) ''{''
         then jsonl_scan ns (rev lines) else None)"

text \<open>
  Step 3, the verbose Codex format: the text after the marker line, without the trailing
  token count; the input itself when there is no marker.
\<close>

definition strip_codex :: "string \<Rightarrow> string" where
  "strip_codex input =
     (let processedInput = remove_reading_prompt True input
      in case find_pat codexMarker processedInput of
           Some markerIndex \<Rightarrow>
             strip_tokens_used (drop (markerIndex + length codexMarker) processedInput)
         | None \<Rightarrow> input)"

text \<open>Step 4: the content of the first \<open>```json\<close> fence, else of the first plain fence.\<close>

definition strip_fences :: "string \<Rightarrow> string" where
  "strip_fences processedInput =
     (case fence_search fence_input_at (backticks @ ''json'') processedInput of
        Some cap \<Rightarrow> cap
      | None \<Rightarrow>
          (case fence_search fence_input_at backticks processedInput of
             Some cap \<Rightarrow> cap
           | None \<Rightarrow> processedInput))"

text \<open>
  Step 5: the first balanced structure of the cleaned text, parsed, or recovered when it
  does not parse. \<open>attemptJSONRecovery\<close> never throws, so the last \<open>throw\<close> of the source is
  never reached.
\<close>

definition extract_balanced :: "string \<Rightarrow> js_error + json" where
  "extract_balanced cleaned =
     (case balanced_slice cleaned of
        NoStart \<Rightarrow> Inl (Error ''No JSON object or array found in input'')
      | NoEnd \<Rightarrow> Inl (Error ''No matching closing brace/bracket found'')
      | Slice extracted \<Rightarrow>
          (case JSON_parse extracted of
             Some v \<Rightarrow> Inr v
           | None \<Rightarrow> Inr (attemptJSONRecovery extracted)))"

definition extractJSON :: "nenv \<Rightarrow> string \<Rightarrow> js_error + json" where
  "extractJSON ne input =
     (case (case JSON_parse input of None \<Rightarrow> None | Some parsed \<Rightarrow> whole_json ne parsed) of
        Some v \<Rightarrow> Inr v
      | None \<Rightarrow>
          (case jsonl (num_text ne) input of
             Some v \<Rightarrow> Inr v
           | None \<Rightarrow> extract_balanced (strip_fences (strip_codex input))))"


section \<open>Output normalizer, backfilling: \<open>normalizeReport\<close>\<close>

text \<open>
  The script is an ES module, so it runs in strict mode: reading a property of \<open>null\<close>,
  calling a method a value does not have, and creating a property on a primitive all throw
  a \<open>TypeError\<close>. The message texts of \<open>TypeError\<close> are the engine's; the model carries a short
  description in their place.
\<close>

definition report_categories :: "string list" where
  "report_categories =
     [''security'', ''correctness'', ''performance'', ''testing'', ''architecture'', ''style'',
      ''maintainability'', ''docs'']"

definition report_severities :: "string list" where
  "report_severities = [''critical'', ''high'', ''medium'', ''low'']"

text \<open>
  \<^verbatim>\<open>
  const cat = f.category.toLowerCase();
  if (cat.includes('design') || cat.includes('architecture')) { f.category = 'architecture'; }
  else if (cat.includes('doc') && !cat.includes('docs')) { f.category = 'docs'; }
  else if (cat === 'docs/style' || cat === 'documentation') { f.category = 'docs'; }
  else if (cat.includes('style') && !cat.includes('docs')) { f.category = 'style'; }
  else if (cat.includes('maintain')) { f.category = 'maintainability'; }
  else if (cat.includes('correct')) { f.category = 'correctness'; }
  else if (cat.includes('test')) { f.category = 'testing'; }
  else if (cat.includes('security')) { f.category = 'security'; }
  else if (cat.includes('performance') || cat.includes('perf')) { f.category = 'performance'; }
  else if (![...].includes(f.category)) { f.category = 'style'; }
  \<close>
\<close>

definition fix_category :: "string \<Rightarrow> string" where
  "fix_category category =
     (let cat = toLowerCase category in
      if str_includes cat ''design'' \<or> str_includes cat ''architecture'' then ''architecture''
      else if str_includes cat ''doc'' \<and> \<not> str_includes cat ''docs'' then ''docs''
      else if cat = ''docs/style'' \<or> cat = ''documentation'' then ''docs''
      else if str_includes cat ''style'' \<and> \<not> str_includes cat ''docs'' then ''style''
      else if str_includes cat ''maintain'' then ''maintainability''
      else if str_includes cat ''correct'' then ''correctness''
      else if str_includes cat ''test'' then ''testing''
      else if str_includes cat ''security'' then ''security''
      else if str_includes cat ''performance'' \<or> str_includes cat ''perf'' then ''performance''
      else if category \<notin> set report_categories then ''style''
      else category)"


text \<open>
  \<^verbatim>\<open>
  const sev = f.severity.toLowerCase();
  if (sev === 'critical' || sev === 'blocker') { f.severity = 'critical'; }
  else if (sev === 'high' || sev === 'major') { f.severity = 'high'; }
  else if (sev === 'medium' || sev === 'moderate') { f.severity = 'medium'; }
  else if (sev === 'low' || sev === 'minor' || sev === 'trivial') { f.severity = 'low'; }
  else if (!['critical', 'high', 'medium', 'low'].includes(f.severity)) { f.severity = 'low'; }
  \<close>
\<close>

definition fix_severity :: "string \<Rightarrow> string" where
  "fix_severity severity =
     (let sev = toLowerCase severity in
      if sev = ''critical'' \<or> sev = ''blocker'' then ''critical''
      else if sev = ''high'' \<or> sev = ''major'' then ''high''
      else if sev = ''medium'' \<or> sev = ''moderate'' then ''medium''
      else if sev = ''low'' \<or> sev = ''minor'' \<or> sev = ''trivial'' then ''low''
      else if severity \<notin> set report_severities then ''low''
      else severity)"

text \<open>
  The guarded rewrite \<open>if (f.key) { const s = f.key.toLowerCase(); ... f.key = ... }\<close>: nothing
  happens when the property is absent or falsy; a truthy value that is not a string has no
  \<open>toLowerCase\<close>.
\<close>

definition fix_string_field ::
  "string \<Rightarrow> (string \<Rightarrow> string) \<Rightarrow> (string \<times> json) list \<Rightarrow> js_error + (string \<times> json) list" where
  "fix_string_field key fix kvs =
     (case map_of kvs key of
        None \<Rightarrow> Inr kvs
      | Some v \<Rightarrow>
          if \<not> truthy v then Inr kvs
          else (case v of
                  JStr s \<Rightarrow> Inr (assoc_set kvs key (JStr (fix s)))
                | other \<Rightarrow> Inl (TypeError (''f.'' @ key @ ''.toLowerCase is not a function''))))"

text \<open>
  \<^verbatim>\<open>
  e => {
    if (typeof e === 'object' && e !== null) {
      if (e.file || e.source) {
        const file = e.file || e.source;
        const lines = e.lines || '';
        return lines ? `${file}:${lines}` : file;
      }
      return JSON.stringify(e);
    }
    return String(e);
  }
  \<close>
\<close>

definition flatten_evidence :: "num_printer \<Rightarrow> json \<Rightarrow> json" where
  "flatten_evidence ns e =
     (if is_object e then
        (case js_or (field e ''file'') (field e ''source'') of
           None \<Rightarrow> JStr (stringify ns e)
         | Some file \<Rightarrow>
             if \<not> truthy file then JStr (stringify ns e)
             else (case js_or (field e ''lines'') None of
                     None \<Rightarrow> file
                   | Some lines \<Rightarrow> JStr (to_text ns file @ '':'' @ to_text ns lines)))
      else JStr (to_text ns e))"

text \<open>\<open>if (x.evidence && Array.isArray(x.evidence)) x.evidence = x.evidence.map(...)\<close>\<close>

definition fix_evidence :: "num_printer \<Rightarrow> (string \<times> json) list \<Rightarrow> (string \<times> json) list" where
  "fix_evidence ns kvs =
     (case map_of kvs ''evidence'' of
        Some (JArr es) \<Rightarrow> assoc_set kvs ''evidence'' (JArr (map (flatten_evidence ns) es))
      | other \<Rightarrow> kvs)"

text \<open>The callback of \<open>data.findings.map\<close>. A \<open>null\<close> element throws on \<open>f.category\<close>.\<close>

fun fix_finding :: "num_printer \<Rightarrow> json \<Rightarrow> js_error + json" where
  "fix_finding ns JNull = Inl (TypeError ''Cannot read properties of null (reading 'category')'')"
| "fix_finding ns (JObj kvs) =
     and_then (fix_string_field ''category'' fix_category kvs) (\<lambda>k1.
     and_then (fix_string_field ''severity'' fix_severity k1) (\<lambda>k2.
     Inr (JObj (fix_evidence ns k2))))"
| "fix_finding ns f = Inr f"

text \<open>
  The callback of \<open>data.assumptions.map\<close>: evidence flattened, a \<open>null\<close> falsification step
  deleted, any other converted with \<open>String\<close>.
\<close>

definition fix_falsification :: "num_printer \<Rightarrow> (string \<times> json) list \<Rightarrow> (string \<times> json) list" where
  "fix_falsification ns kvs =
     (case map_of kvs ''falsification_step'' of
        None \<Rightarrow> kvs
      | Some JNull \<Rightarrow> assoc_delete kvs ''falsification_step''
      | Some v \<Rightarrow> assoc_set kvs ''falsification_step'' (JStr (to_text ns v)))"

fun fix_assumption :: "num_printer \<Rightarrow> json \<Rightarrow> js_error + json" where
  "fix_assumption ns JNull = Inl (TypeError ''Cannot read properties of null (reading 'evidence')'')"
| "fix_assumption ns (JObj kvs) = Inr (JObj (fix_falsification ns (fix_evidence ns kvs)))"
| "fix_assumption ns a = Inr a"

text \<open>\<open>if (!data.key) data.key = dflt\<close>\<close>

definition default_field :: "string \<Rightarrow> json \<Rightarrow> (string \<times> json) list \<Rightarrow> (string \<times> json) list" where
  "default_field key dflt kvs =
     (if truthy_opt (map_of kvs key) then kvs else assoc_set kvs key dflt)"

text \<open>\<open>Number.isFinite(n) ? n : 0\<close>\<close>

fun finite_or_zero :: "json \<Rightarrow> json" where
  "finite_or_zero (JNum m e) = (if num_is_infinite m e then JNum 0 0 else JNum m e)"
| "finite_or_zero v = JNum 0 0"

text \<open>
  The \<open>pr\<close> sub-record. A value that is falsy or not of type object is replaced by \<open>{}\<close>. On
  an object the five fields are defaulted. An array is of type object too: the script sets
  the five fields on it as named properties, which \<open>JSON.stringify\<close> does not print, so the
  array stays as it is.
\<close>

definition fill_pr :: "nenv \<Rightarrow> (string \<times> json) list \<Rightarrow> (string \<times> json) list" where
  "fill_pr ne pr =
     (let p1 = default_field ''repo'' (JStr (env_or ne ''PR_REPO'' ''unknown'')) pr;
          p2 = (if map_of p1 ''number'' = None
                then assoc_set p1 ''number'' (finite_or_zero (parseInt (env_or ne ''PR_NUMBER'' ''0'')))
                else p1);
          p3 = default_field ''head_sha'' (JStr (env_or ne ''HEAD_SHA'' [])) p2;
          p4 = default_field ''branch'' (JStr (env_or ne ''PR_BRANCH'' ''unknown'')) p3
      in default_field ''link'' (JStr (env_or ne ''RUN_URL'' ''https://github.com/'')) p4)"

definition fix_pr :: "nenv \<Rightarrow> (string \<times> json) list \<Rightarrow> (string \<times> json) list" where
  "fix_pr ne kvs =
     (case map_of kvs ''pr'' of
        Some (JObj pr) \<Rightarrow> assoc_set kvs ''pr'' (JObj (fill_pr ne pr))
      | Some (JArr xs) \<Rightarrow> kvs
      | other \<Rightarrow> assoc_set kvs ''pr'' (JObj (fill_pr ne [])))"

text \<open>
  \<^verbatim>\<open>
  if (!data.tests) {
    data.tests = { executed: false, command: null, exit_code: null, summary: 'Tests not executed' };
  } else {
    if (data.tests.executed === null || data.tests.executed === undefined) {
      data.tests.executed = false;
    }
    if (typeof data.tests.executed !== 'boolean') {
      data.tests.executed = Boolean(data.tests.executed);
    }
  }
  \<close>
  A truthy primitive (a number, a non-empty string, \<open>true\<close>) has no \<open>executed\<close>, and the
  assignment to it throws. On an array the assignment creates a named property that is not
  printed.
\<close>

definition fix_executed :: "(string \<times> json) list \<Rightarrow> (string \<times> json) list" where
  "fix_executed tests =
     (case map_of tests ''executed'' of
        None \<Rightarrow> assoc_set tests ''executed'' (JBool False)
      | Some JNull \<Rightarrow> assoc_set tests ''executed'' (JBool False)
      | Some (JBool b) \<Rightarrow> tests
      | Some v \<Rightarrow> assoc_set tests ''executed'' (JBool (truthy v)))"

definition fix_tests :: "(string \<times> json) list \<Rightarrow> js_error + (string \<times> json) list" where
  "fix_tests kvs =
     (case map_of kvs ''tests'' of
        None \<Rightarrow> Inr (assoc_set kvs ''tests'' tests_not_executed)
      | Some v \<Rightarrow>
          if \<not> truthy v then Inr (assoc_set kvs ''tests'' tests_not_executed)
          else (case v of
                  JObj tests \<Rightarrow> Inr (assoc_set kvs ''tests'' (JObj (fix_executed tests)))
                | JArr xs \<Rightarrow> Inr kvs
                | other \<Rightarrow> Inl (TypeError ''Cannot create property 'executed' on a primitive value'')))"

text \<open>
  \<open>tests.coverage\<close>, when defined: a string is read with \<open>parseFloat\<close> (\<open>not reported\<close>, the
  empty string and \<open>NaN\<close> give \<open>null\<close>), a number stays, everything else becomes \<open>null\<close>.
\<close>

fun fix_coverage_value :: "json \<Rightarrow> json" where
  "fix_coverage_value (JStr s) =
     (if toLowerCase s = ''not reported'' \<or> s = [] then JNull
      else (case parseFloat s of JNaN \<Rightarrow> JNull | p \<Rightarrow> p))"
| "fix_coverage_value (JNum m e) = JNum m e"
| "fix_coverage_value JNaN = JNaN"
| "fix_coverage_value v = JNull"

definition fix_coverage :: "(string \<times> json) list \<Rightarrow> (string \<times> json) list" where
  "fix_coverage kvs =
     (case map_of kvs ''tests'' of
        Some (JObj tests) \<Rightarrow>
          (case map_of tests ''coverage'' of
             None \<Rightarrow> kvs
           | Some c \<Rightarrow> assoc_set kvs ''tests'' (JObj (assoc_set tests ''coverage'' (fix_coverage_value c))))
      | other \<Rightarrow> kvs)"

text \<open>\<open>if (data.key && Array.isArray(data.key)) data.key = data.key.map(f)\<close>\<close>

definition map_array_field ::
  "string \<Rightarrow> (json \<Rightarrow> js_error + json) \<Rightarrow> (string \<times> json) list \<Rightarrow> js_error + (string \<times> json) list" where
  "map_array_field key f kvs =
     (case map_of kvs key of
        Some (JArr xs) \<Rightarrow>
          (case map_throwing f xs of
             Inl e \<Rightarrow> Inl e
           | Inr ys \<Rightarrow> Inr (assoc_set kvs key (JArr ys)))
      | other \<Rightarrow> Inr kvs)"

text \<open>
  \<open>normalizeReport(data, tool)\<close> on the properties of the object \<open>data\<close>. The first two
  statements are
  \<^verbatim>\<open>
  // Always use our known tool and model values (don't trust LLM self-identification)
  if (tool) data.tool = tool;
  if (process.env.MODEL) data.model = process.env.MODEL;
  \<close>
\<close>

definition set_tool_model :: "nenv \<Rightarrow> json option \<Rightarrow> (string \<times> json) list \<Rightarrow> (string \<times> json) list" where
  "set_tool_model ne tool data =
     (let d1 = (case tool of
                  None \<Rightarrow> data
                | Some t \<Rightarrow> if truthy t then assoc_set data ''tool'' t else data)
      in if env_or ne ''MODEL'' [] \<noteq> [] then assoc_set d1 ''model'' (JStr (env_or ne ''MODEL'' [])) else d1)"

definition fill_defaults :: "nenv \<Rightarrow> (string \<times> json) list \<Rightarrow> (string \<times> json) list" where
  "fill_defaults ne data =
     (let d1 = default_field ''timestamp'' (JStr (now ne)) data;
          d2 = fix_pr ne d1;
          d3 = default_field ''assumptions'' (JArr []) d2;
          d4 = default_field ''findings'' (JArr []) d3;
          d5 = default_field ''metrics'' (JObj []) d4
      in default_field ''evidence'' (JArr []) d5)"

definition exit_criteria_default :: json where
  "exit_criteria_default = JObj [(''ready_for_pr'', JBool False), (''reasons'', JArr [])]"

definition normalizeReport ::
  "nenv \<Rightarrow> (string \<times> json) list \<Rightarrow> json option \<Rightarrow> js_error + (string \<times> json) list" where
  "normalizeReport ne data tool =
     and_then (fix_tests (fill_defaults ne (set_tool_model ne tool data))) (\<lambda>d1.
     and_then
       (map_array_field ''assumptions'' (fix_assumption (num_text ne))
          (fix_evidence (num_text ne)
             (default_field ''summary'' (JStr ''No summary provided'')
                (default_field ''exit_criteria'' exit_criteria_default d1)))) (\<lambda>d2.
     and_then (map_array_field ''findings'' (fix_finding (num_text ne)) d2) (\<lambda>d3.
     Inr (fix_coverage d3))))"

section \<open>Output normalizer, the script: \<open>main\<close>\<close>

text \<open>
  The outcome of one run of the script: exit status 0 with the extracted value printed on
  standard output by \<open>console.log(JSON.stringify(json, null, 2))\<close>, or exit status 1 with a
  message on standard error. The warning \<open>attemptJSONRecovery\<close> prints is not carried: the
  object it then returns has no findings, assumptions or tests, so the run exits with 0 and
  its standard error is not read.
\<close>

datatype script_result = Printed json | Failed string

definition error_message :: "js_error \<Rightarrow> string" where
  "error_message e = (case e of Error m \<Rightarrow> m | TypeError m \<Rightarrow> m | SyntaxError m \<Rightarrow> m | FsError m \<Rightarrow> m)"

text \<open>The \<open>catch\<close> of \<open>main\<close>: what it writes to standard error before \<open>process.exit(1)\<close>.\<close>

definition failed_to_extract :: "nenv \<Rightarrow> string \<Rightarrow> js_error \<Rightarrow> script_result" where
  "failed_to_extract ne input e =
     Failed (''Failed to extract JSON: '' @ error_message e @ [CHR 0x0A]
             @ (if env_or ne ''DEBUG_NORMALIZE'' [] \<noteq> []
                then ''Original input: '' @ take 500 input @ [CHR 0x0A] else []))"

text \<open>
  \<^verbatim>\<open>
  let tool = json.tool || process.env.TOOL || null;
  if (!tool && process.argv[2]) {
    const filename = process.argv[2].toLowerCase();
    if (filename.includes('claude')) tool = 'claude-code';
    else if (filename.includes('codex')) tool = 'codex-cli';
    else if (filename.includes('gemini')) tool = 'gemini-cli';
  }
  \<close>
\<close>

definition tool_from_filename :: "string \<Rightarrow> json option" where
  "tool_from_filename name =
     (let filename = toLowerCase name in
      if str_includes filename ''claude'' then Some (JStr ''claude-code'')
      else if str_includes filename ''codex'' then Some (JStr ''codex-cli'')
      else if str_includes filename ''gemini'' then Some (JStr ''gemini-cli'')
      else None)"

definition detect_tool :: "nenv \<Rightarrow> json \<Rightarrow> json option" where
  "detect_tool ne json =
     (case js_or (field json ''tool'')
             (if env_or ne ''TOOL'' [] \<noteq> [] then Some (JStr (env_or ne ''TOOL'' [])) else None) of
        Some t \<Rightarrow> if truthy t then Some t
                  else (case argv_file ne of
                          None \<Rightarrow> None
                        | Some name \<Rightarrow> if name = [] then None else tool_from_filename name)
      | None \<Rightarrow> (case argv_file ne of
                   None \<Rightarrow> None
                 | Some name \<Rightarrow> if name = [] then None else tool_from_filename name))"

text \<open>
  \<open>main\<close>, from the input text on. Normalization is applied only
  \<open>if (json.findings || json.assumptions || json.tests)\<close>; that test throws on \<open>null\<close>, and
  only an object can pass it.
\<close>

definition main :: "nenv \<Rightarrow> string \<Rightarrow> script_result" where
  "main ne input =
     (if trim input = [] then Failed (''No input provided'' @ [CHR 0x0A])
      else
        (case extractJSON ne input of
           Inl e \<Rightarrow> failed_to_extract ne input e
         | Inr JNull \<Rightarrow>
             failed_to_extract ne input (TypeError ''Cannot read properties of null (reading 'findings')'')
         | Inr (JObj data) \<Rightarrow>
             if truthy_opt (map_of data ''findings'') \<or> truthy_opt (map_of data ''assumptions'')
                \<or> truthy_opt (map_of data ''tests'')
             then (case normalizeReport ne data (detect_tool ne (JObj data)) of
                     Inl e \<Rightarrow> failed_to_extract ne input e
                   | Inr data' \<Rightarrow> Printed (JObj data'))
             else Printed (JObj data)
         | Inr json \<Rightarrow> Printed json))"

section \<open>Provider executor, normalization: \<open>ProviderExecutor.normalizeJson\<close>\<close>

text \<open>
  What the executor reads from its own process: the environment, the clock, whether
  \<open>spawn('node', [normalizePath])\<close> succeeds (\<open>Some message\<close> is the \<open>error\<close> event), the
  engine's printing of numbers, the package directory \<open>this.packageDir\<close>, the working
  directory \<open>process.cwd()\<close>, and the paths (as resolved segments) that the file system
  refuses to create or write.
\<close>

record xenv =
  process_env :: "string \<Rightarrow> string option"
  clock :: string
  spawn_error :: "string option"
  number_text :: num_printer
  packageDir :: string
  cwd :: string
  denied :: "string list \<Rightarrow> bool"

text \<open>The environment handed to the script: \<open>{ ...process.env, TOOL: process.env.TOOL || 'unknown', ... }\<close>\<close>

definition or_default :: "string option \<Rightarrow> string \<Rightarrow> string" where
  "or_default v dflt = (case v of None \<Rightarrow> dflt | Some s \<Rightarrow> if s = [] then dflt else s)"

definition script_env :: "xenv \<Rightarrow> nenv" where
  "script_env xe =
     \<lparr> penv = (process_env xe)
         (''TOOL'' \<mapsto> or_default (process_env xe ''TOOL'') ''unknown'',
          ''MODEL'' \<mapsto> or_default (process_env xe ''MODEL'') ''unknown'',
          ''PR_NUMBER'' \<mapsto> or_default (process_env xe ''PR_NUMBER'') [],
          ''PR_REPO'' \<mapsto> or_default (process_env xe ''PR_REPO'') [],
          ''HEAD_SHA'' \<mapsto> or_default (process_env xe ''HEAD_SHA'') [],
          ''PR_BRANCH'' \<mapsto> or_default (process_env xe ''PR_BRANCH'') [],
          ''RUN_URL'' \<mapsto> or_default (process_env xe ''RUN_URL'') []),
       now = clock xe, argv_file = None, num_text = number_text xe \<rparr>"

text \<open>
  The object built in the \<open>exit\<close> handler for a non-zero status and in the \<open>error\<close> handler.
\<close>

definition normalize_error_json :: "xenv \<Rightarrow> string \<Rightarrow> string \<Rightarrow> string \<Rightarrow> json" where
  "normalize_error_json xe err input reason =
     JObj [(''tool'', JStr (or_default (process_env xe ''TOOL'') ''unknown'')),
           (''model'', JStr (or_default (process_env xe ''MODEL'') ''unknown'')),
           (''timestamp'', JStr (clock xe)),
           (''error'', JStr err),
           (''raw_output'', JStr (take 1000 input)),
           (''findings'', JArr []),
           (''exit_criteria'',
              JObj [(''ready_for_pr'', JBool False), (''reasons'', JArr [JStr reason])])]"

text \<open>
  \<open>normalizeJson(input)\<close>. The promise always resolves, with a text: the script's standard
  output, or \<open>JSON.stringify(errorJson, null, 2)\<close>. The model returns the value that text
  serializes.
\<close>

definition normalizeJson :: "xenv \<Rightarrow> string \<Rightarrow> json" where
  "normalizeJson xe input =
     (case spawn_error xe of
        Some msg \<Rightarrow>
          normalize_error_json xe (''Failed to run normalizer: '' @ msg) input ''Failed to normalize output''
      | None \<Rightarrow>
          (case main (script_env xe) input of
             Printed v \<Rightarrow> v
           | Failed stderr \<Rightarrow>
               normalize_error_json xe
                 (''Failed to normalize output: '' @ (if stderr = [] then ''Unknown error'' else stderr))
                 input ''Failed to generate valid review''))"


section \<open>Aggregator and gate: \<open>scripts/aggregate-reviews.mjs\<close>\<close>


































section \<open>Paths: \<open>node:path\<close> on POSIX\<close>

text \<open>
  A resolved path is the list of its segments below the root. Normalization drops empty
  segments and \<open>.\<close>, and lets \<open>..\<close> remove the segment before it; above the root \<open>..\<close> has
  no effect.
\<close>

definition norm_step :: "string list \<Rightarrow> string \<Rightarrow> string list" where
  "norm_step stack seg =
     (if seg = [] \<or> seg = ''.'' then stack
      else if seg = ''..'' then (case stack of [] \<Rightarrow> [] | s # ss \<Rightarrow> ss)
      else seg # stack)"

definition normalize_abs :: "string list \<Rightarrow> string list" where
  "normalize_abs segs = rev (foldl norm_step [] segs)"

definition isAbsolute :: "string \<Rightarrow> bool" where
  "isAbsolute p = startsWith p ''/''"

text \<open>\<open>path.resolve(p)\<close>, against the working directory \<open>wd\<close> (itself absolute).\<close>

definition path_resolve :: "string \<Rightarrow> string \<Rightarrow> string list" where
  "path_resolve wd p =
     (if isAbsolute p then normalize_abs (split_on (CHR ''/'') p)
      else normalize_abs (split_on (CHR ''/'') wd @ split_on (CHR ''/'') p))"

text \<open>\<open>path.resolve(a, b)\<close>\<close>

definition path_resolve2 :: "string \<Rightarrow> string \<Rightarrow> string \<Rightarrow> string list" where
  "path_resolve2 wd a b =
     (if isAbsolute b then normalize_abs (split_on (CHR ''/'') b)
      else normalize_abs (path_resolve wd a @ split_on (CHR ''/'') b))"

text \<open>
  \<open>path.relative(from, to)\<close> on resolved paths: one \<open>..\<close> for each segment of \<open>from\<close> below the
  common prefix, then the rest of \<open>to\<close>.
\<close>

fun common_prefix :: "string list \<Rightarrow> string list \<Rightarrow> nat" where
  "common_prefix (x # xs) (y # ys) = (if x = y then Suc (common_prefix xs ys) else 0)"
| "common_prefix xs ys = 0"

definition path_relative :: "string list \<Rightarrow> string list \<Rightarrow> string" where
  "path_relative from to =
     (let c = common_prefix from to
      in join ''/'' (replicate (length from - c) ''..'' @ drop c to))"

text \<open>The resolved form of \<open>path.join(this.packageDir, s1, ..., sn)\<close>.\<close>

definition under_package :: "xenv \<Rightarrow> string list \<Rightarrow> string list" where
  "under_package xe parts =
     normalize_abs (path_resolve (cwd xe) (packageDir xe) @ concat (map (split_on (CHR ''/'')) parts))"

text \<open>How a resolved path prints, for messages.\<close>

definition path_text :: "string list \<Rightarrow> string" where
  "path_text segs = ''/'' @ join ''/'' segs"

section \<open>Provider executor: \<open>lib/execute-provider.js\<close>\<close>

text \<open>
  \<^verbatim>\<open>
  validateOutputPath(outputPath) {
    if (outputPath.includes('..')) {
      throw new Error(`Invalid output path contains directory traversal: ${outputPath}`);
    }
    const resolvedPath = path.resolve(outputPath);
    const expectedDir = path.resolve(this.packageDir, 'workspace/reports');
    const relative = path.relative(expectedDir, resolvedPath);
    if (relative.startsWith('..') || path.isAbsolute(relative)) {
      throw new Error(`Output path outside allowed directory: ${outputPath}`);
    }
    return resolvedPath;
  }
  \<close>
\<close>

definition expectedDir :: "xenv \<Rightarrow> string list" where
  "expectedDir xe = path_resolve2 (cwd xe) (packageDir xe) ''workspace/reports''"

definition validateOutputPath :: "xenv \<Rightarrow> string \<Rightarrow> js_error + string list" where
  "validateOutputPath xe outputPath =
     (if str_includes outputPath ''..'' then
        Inl (Error (''Invalid output path contains directory traversal: '' @ outputPath))
      else
        (let resolvedPath = path_resolve (cwd xe) outputPath;
             relative = path_relative (expectedDir xe) resolvedPath
         in if startsWith relative ''..'' \<or> isAbsolute relative
            then Inl (Error (''Output path outside allowed directory: '' @ outputPath))
            else Inr resolvedPath))"

subsection \<open>The file system\<close>

text \<open>
  A file holds a text, or the text \<open>JSON.stringify(v, null, 2)\<close> of a value \<open>v\<close> (\<open>Doc v\<close>). The
  log records, in order, what an invocation did to the file system and when it called the
  normalizer. There is no operation that removes a file: no statement of the executor, the
  normalizer or the aggregator deletes one.
\<close>

datatype content = Text string | Doc json

datatype io =
    MadeDir "string list"
  | Wrote "string list" content
  | Copied "string list" "string list"
  | Normalizing string

record world =
  files :: "string list \<Rightarrow> content option"
  log :: "io list"

definition fs_mkdir :: "xenv \<Rightarrow> string list \<Rightarrow> world \<Rightarrow> js_error + world" where
  "fs_mkdir xe dir w =
     (if denied xe dir then Inl (FsError (''EACCES: permission denied, mkdir '' @ path_text dir))
      else Inr (w\<lparr>log := log w @ [MadeDir dir]\<rparr>))"

definition fs_writeFile :: "xenv \<Rightarrow> string list \<Rightarrow> content \<Rightarrow> world \<Rightarrow> js_error + world" where
  "fs_writeFile xe path c w =
     (if denied xe path then Inl (FsError (''EACCES: permission denied, open '' @ path_text path))
      else Inr (w\<lparr>files := (files w)(path \<mapsto> c), log := log w @ [Wrote path c]\<rparr>))"

definition fs_copyFile :: "xenv \<Rightarrow> string list \<Rightarrow> string list \<Rightarrow> world \<Rightarrow> js_error + world" where
  "fs_copyFile xe src dst w =
     (case files w src of
        None \<Rightarrow> Inl (FsError (''ENOENT: no such file or directory, copyfile '' @ path_text src))
      | Some c \<Rightarrow>
          if denied xe dst then Inl (FsError (''EACCES: permission denied, copyfile '' @ path_text dst))
          else Inr (w\<lparr>files := (files w)(dst \<mapsto> c), log := log w @ [Copied src dst]\<rparr>))"

text \<open>\<open>JSON.stringify(v, null, 2)\<close>, the text a \<open>Doc\<close> file holds.\<close>

fun pretty :: "num_printer \<Rightarrow> string \<Rightarrow> json \<Rightarrow> string" where
  "pretty ns ind (JArr xs) =
     (if xs = [] then ''[]''
      else ''['' @ [CHR 0x0A] @ join ('','' @ [CHR 0x0A])
             (map (\<lambda>x. ind @ ''  '' @ pretty ns (ind @ ''  '') x) xs)
           @ [CHR 0x0A] @ ind @ '']'')"
| "pretty ns ind (JObj kvs) =
     (if kvs = [] then ''{}''
      else ''{'' @ [CHR 0x0A] @ join ('','' @ [CHR 0x0A])
             (map (\<lambda>kv. ind @ ''  '' @ quote (fst kv) @ '': '' @ pretty ns (ind @ ''  '') (snd kv)) kvs)
           @ [CHR 0x0A] @ ind @ ''}'')"
| "pretty ns ind v = stringify ns v"

definition fs_readFile :: "xenv \<Rightarrow> string list \<Rightarrow> world \<Rightarrow> js_error + string" where
  "fs_readFile xe path w =
     (case files w path of
        None \<Rightarrow> Inl (FsError (''ENOENT: no such file or directory, open '' @ path_text path))
      | Some (Text s) \<Rightarrow> Inr s
      | Some (Doc v) \<Rightarrow> Inr (pretty (number_text xe) [] v))"

subsection \<open>Saving the raw output\<close>

text \<open>\<open>cmd.env?.NAME || 'unknown'\<close>\<close>

definition cmd_env_or_unknown :: "command \<Rightarrow> string \<Rightarrow> string" where
  "cmd_env_or_unknown cmd name = or_default (map_of (env cmd) name) ''unknown''"

definition rawDir :: "xenv \<Rightarrow> string list" where
  "rawDir xe = under_package xe [''workspace'', ''reports'', ''raw'']"

text \<open>
  \<open>path.join(rawDir, rawFileName)\<close> for the file name \<open>`${toolName}.raw.txt`\<close>; the three
  \<open>case\<close> labels of the \<open>switch\<close> other than \<open>codex-cli\<close> build the same name as its default.
\<close>

definition rawPath :: "xenv \<Rightarrow> string \<Rightarrow> string list" where
  "rawPath xe toolName =
     normalize_abs (rawDir xe @ split_on (CHR ''/'') (toolName @ ''.raw.txt''))"

text \<open>
  \<^verbatim>\<open>
  async saveRawOutput(cmd, output) {
    const toolName = cmd.env?.TOOL || 'unknown';
    switch (toolName) { ... case 'codex-cli': return; ... }
    try {
      await fs.mkdir(rawDir, { recursive: true });
      await fs.writeFile(rawPath, output);
    } catch (error) {
      console.error(`Failed to save raw output: ${error.message}`);
    }
  }
  \<close>
  It never throws: a failure is logged and the world stays as the failed step left it.
\<close>

definition saveRawOutput :: "xenv \<Rightarrow> command \<Rightarrow> string \<Rightarrow> world \<Rightarrow> world" where
  "saveRawOutput xe cmd output w =
     (let toolName = cmd_env_or_unknown cmd ''TOOL'' in
      if toolName = ''codex-cli'' then w
      else (case fs_mkdir xe (rawDir xe) w of
              Inl e \<Rightarrow> w
            | Inr w1 \<Rightarrow>
                (case fs_writeFile xe (rawPath xe toolName) (Text output) w1 of
                   Inl e \<Rightarrow> w1
                 | Inr w2 \<Rightarrow> w2)))"

subsection \<open>Writing the report\<close>

text \<open>
  \<^verbatim>\<open>
  async processOutput(cmd, output) {
    const normalized = await this.normalizeJson(output);
    const validatedPath = this.validateOutputPath(cmd.outputFile);
    await fs.mkdir(path.dirname(validatedPath), { recursive: true });
    await fs.writeFile(validatedPath, normalized);
  }
  \<close>
  The result pairs what the call throws, if anything, with the world it leaves.
\<close>

definition write_validated ::
  "xenv \<Rightarrow> command \<Rightarrow> bool \<Rightarrow> content \<Rightarrow> world \<Rightarrow> js_error option \<times> world" where
  "write_validated xe cmd with_mkdir c w =
     (case validateOutputPath xe (outputFile cmd) of
        Inl e \<Rightarrow> (Some e, w)
      | Inr validatedPath \<Rightarrow>
          (case (if with_mkdir then fs_mkdir xe (butlast validatedPath) w else Inr w) of
             Inl e \<Rightarrow> (Some e, w)
           | Inr w1 \<Rightarrow>
               (case fs_writeFile xe validatedPath c w1 of
                  Inl e \<Rightarrow> (Some e, w1)
                | Inr w2 \<Rightarrow> (None, w2))))"

definition processOutput :: "xenv \<Rightarrow> command \<Rightarrow> string \<Rightarrow> world \<Rightarrow> js_error option \<times> world" where
  "processOutput xe cmd output w =
     write_validated xe cmd True (Doc (normalizeJson xe output)) (w\<lparr>log := log w @ [Normalizing output]\<rparr>)"

text \<open>
  \<^verbatim>\<open>
  async writeErrorOutput(cmd, errorMessage) {
    const errorJson = {
      tool: cmd.env?.TOOL || 'unknown', model: cmd.env?.MODEL || 'unknown',
      timestamp: new Date().toISOString(), error: errorMessage, findings: [],
      exit_criteria: { ready_for_pr: false, reasons: ['Provider execution failed'] }
    };
    const validatedPath = this.validateOutputPath(cmd.outputFile);
    await fs.mkdir(path.dirname(validatedPath), { recursive: true });
    await fs.writeFile(validatedPath, JSON.stringify(errorJson, null, 2));
  }
  \<close>
\<close>

definition execution_error_json :: "xenv \<Rightarrow> command \<Rightarrow> string \<Rightarrow> json" where
  "execution_error_json xe cmd errorMessage =
     JObj [(''tool'', JStr (cmd_env_or_unknown cmd ''TOOL'')),
           (''model'', JStr (cmd_env_or_unknown cmd ''MODEL'')),
           (''timestamp'', JStr (clock xe)),
           (''error'', JStr errorMessage),
           (''findings'', JArr []),
           (''exit_criteria'',
              JObj [(''ready_for_pr'', JBool False),
                    (''reasons'', JArr [JStr ''Provider execution failed''])])]"

definition writeErrorOutput :: "xenv \<Rightarrow> command \<Rightarrow> string \<Rightarrow> world \<Rightarrow> js_error option \<times> world" where
  "writeErrorOutput xe cmd errorMessage w =
     write_validated xe cmd True (Doc (execution_error_json xe cmd errorMessage)) w"

text \<open>
  \<^verbatim>\<open>
  async processCodexOutput(cmd) {
    try {
      const rawOutput = await fs.readFile(cmd.rawOutputFile, 'utf8');
      const rawDir = path.join(this.packageDir, 'workspace', 'reports', 'raw');
      const rawPath = path.join(rawDir, 'codex-cli.raw.txt');
      await fs.mkdir(rawDir, { recursive: true });
      await fs.copyFile(cmd.rawOutputFile, rawPath);
      const normalized = await this.normalizeJson(rawOutput);
      const validatedPath = this.validateOutputPath(cmd.outputFile);
      await fs.writeFile(validatedPath, normalized);
    } catch (error) {
      await this.writeErrorOutput(cmd, error.message);
    }
  }
  \<close>
\<close>

definition codex_try :: "xenv \<Rightarrow> command \<Rightarrow> string \<Rightarrow> world \<Rightarrow> js_error option \<times> world" where
  "codex_try xe cmd rawFile w =
     (case fs_readFile xe (path_resolve (cwd xe) rawFile) w of
        Inl e \<Rightarrow> (Some e, w)
      | Inr rawOutput \<Rightarrow>
          (case fs_mkdir xe (rawDir xe) w of
             Inl e \<Rightarrow> (Some e, w)
           | Inr w1 \<Rightarrow>
               (case fs_copyFile xe (path_resolve (cwd xe) rawFile) (rawPath xe ''codex-cli'') w1 of
                  Inl e \<Rightarrow> (Some e, w1)
                | Inr w2 \<Rightarrow>
                    write_validated xe cmd False (Doc (normalizeJson xe rawOutput))
                      (w2\<lparr>log := log w2 @ [Normalizing rawOutput]\<rparr>))))"

definition processCodexOutput :: "xenv \<Rightarrow> command \<Rightarrow> string \<Rightarrow> world \<Rightarrow> js_error option \<times> world" where
  "processCodexOutput xe cmd rawFile w =
     (case codex_try xe cmd rawFile w of
        (None, w1) \<Rightarrow> (None, w1)
      | (Some e, w1) \<Rightarrow> writeErrorOutput xe cmd (error_message e) w1)"

subsection \<open>The exit handlers\<close>

text \<open>
  What a run of the external process shows to the handler: the output collected so far, the
  exit code (\<open>null\<close> when a signal ended the process) and the signal, and the flag
  \<open>timedOut\<close> that the timeout callback sets.
\<close>

record exit_event =
  stdout :: string
  stderr :: string
  code :: "int option"
  signal :: "string option"
  timedOut :: bool

record execution_result =
  exitCode :: int
  res_stdout :: string
  res_stderr :: string
  res_signal :: "string option"

datatype outcome = Resolved execution_result | Rejected js_error

definition result_of :: "exit_event \<Rightarrow> execution_result" where
  "result_of ev =
     \<lparr> exitCode = (case code ev of None \<Rightarrow> 0 | Some c \<Rightarrow> c),
       res_stdout = stdout ev, res_stderr = stderr ev, res_signal = signal ev \<rparr>"

definition timeout_text :: "xenv \<Rightarrow> command \<Rightarrow> string" where
  "timeout_text xe cmd = (case timeout cmd of None \<Rightarrow> ''undefined'' | Some t \<Rightarrow> to_text (number_text xe) t)"

text \<open>\<open>const combinedOutput = stdout || stderr || 'No output received';\<close>\<close>

definition combinedOutput :: "exit_event \<Rightarrow> string" where
  "combinedOutput ev =
     (if stdout ev \<noteq> [] then stdout ev else if stderr ev \<noteq> [] then stderr ev else ''No output received'')"

text \<open>
  The \<open>exit\<close> handler of \<open>executeWithStdin\<close>:
  \<^verbatim>\<open>
  if (timedOut) {
    reject(new Error(`Command timed out after ${cmd.timeout} seconds`));
    return;
  }
  try {
    // Always save raw output (stdout and stderr) for debugging
    const combinedOutput = stdout || stderr || 'No output received';
    await this.saveRawOutput(cmd, combinedOutput);
    if (code === 0 || stdout.trim()) { await this.processOutput(cmd, stdout); }
    else { await this.writeErrorOutput(cmd, stderr || 'Command failed'); }
    resolve({ exitCode: code || 0, stdout, stderr, signal });
  } catch (error) { reject(error); }
  \<close>
\<close>

definition on_exit_stdin :: "xenv \<Rightarrow> command \<Rightarrow> exit_event \<Rightarrow> world \<Rightarrow> outcome \<times> world" where
  "on_exit_stdin xe cmd ev w =
     (if timedOut ev then
        (Rejected (Error (''Command timed out after '' @ timeout_text xe cmd @ '' seconds'')), w)
      else
        (let w1 = saveRawOutput xe cmd (combinedOutput ev) w
         in case (if code ev = Some 0 \<or> trim (stdout ev) \<noteq> []
                  then processOutput xe cmd (stdout ev) w1
                  else writeErrorOutput xe cmd
                         (if stderr ev \<noteq> [] then stderr ev else ''Command failed'') w1) of
              (None, w2) \<Rightarrow> (Resolved (result_of ev), w2)
            | (Some e, w2) \<Rightarrow> (Rejected e, w2)))"

text \<open>
  The \<open>exit\<close> handler of \<open>executeCodex\<close>:
  \<^verbatim>\<open>
  if (timedOut) {
    reject(new Error(`Codex timed out after ${cmd.timeout} seconds`));
    return;
  }
  try {
    if (cmd.rawOutputFile) { await this.processCodexOutput(cmd); }
    resolve({ exitCode: code || 0, stdout, stderr, signal });
  } catch (error) { reject(error); }
  \<close>
\<close>

definition on_exit_codex :: "xenv \<Rightarrow> command \<Rightarrow> exit_event \<Rightarrow> world \<Rightarrow> outcome \<times> world" where
  "on_exit_codex xe cmd ev w =
     (if timedOut ev then
        (Rejected (Error (''Codex timed out after '' @ timeout_text xe cmd @ '' seconds'')), w)
      else
        (case (case rawOutputFile cmd of
                 None \<Rightarrow> (None, w)
               | Some rawFile \<Rightarrow> if rawFile = [] then (None, w) else processCodexOutput xe cmd rawFile w) of
           (None, w1) \<Rightarrow> (Resolved (result_of ev), w1)
         | (Some e, w1) \<Rightarrow> (Rejected e, w1)))"

text \<open>
  \<open>execute(provider, options)\<close> once the process has exited: \<open>codex\<close> takes the second
  handler, every other provider the first.
\<close>

definition on_exit :: "xenv \<Rightarrow> string \<Rightarrow> command \<Rightarrow> exit_event \<Rightarrow> world \<Rightarrow> outcome \<times> world" where
  "on_exit xe provider cmd ev w =
     (if provider = ''codex'' then on_exit_codex xe cmd ev w else on_exit_stdin xe cmd ev w)"



section \<open>Provider executor: timeouts\<close>

text \<open>
  \<open>Number(v)\<close> for a text: white space trimmed, the empty text is 0, a decimal literal or a
  hexadecimal, octal or binary integer literal gives its value, anything else \<open>NaN\<close>.
\<close>

definition radix_value :: "nat \<Rightarrow> string \<Rightarrow> json" where
  "radix_value b ds =
     (if ds \<noteq> [] \<and> list_all (\<lambda>c. case hex_val c of None \<Rightarrow> False | Some d \<Rightarrow> d < b) ds
      then JNum (int (foldl (\<lambda>n c. b * n + (case hex_val c of None \<Rightarrow> 0 | Some d \<Rightarrow> d)) 0 ds)) 0
      else JNaN)"

definition text_to_number :: "string \<Rightarrow> json" where
  "text_to_number s =
     (let t = trim s in
      if t = [] then JNum 0 0
      else if startsWith t ''0x'' \<or> startsWith t ''0X'' then radix_value 16 (drop 2 t)
      else if startsWith t ''0o'' \<or> startsWith t ''0O'' then radix_value 8 (drop 2 t)
      else if startsWith t ''0b'' \<or> startsWith t ''0B'' then radix_value 2 (drop 2 t)
      else (case decimal_prefix t of
              Some (v, []) \<Rightarrow> v
            | other \<Rightarrow> JNaN))"

text \<open>\<open>Number(v)\<close>: an array or object is converted through its text.\<close>

fun to_number :: "num_printer \<Rightarrow> json \<Rightarrow> json" where
  "to_number ns JNull = JNum 0 0"
| "to_number ns (JBool b) = (if b then JNum 1 0 else JNum 0 0)"
| "to_number ns (JNum m e) = JNum m e"
| "to_number ns JNaN = JNaN"
| "to_number ns (JStr s) = text_to_number s"
| "to_number ns v = text_to_number (to_text ns v)"

text \<open>
  The delay of \<open>setTimeout(f, cmd.timeout * 1000)\<close> in milliseconds, \<open>None\<close> when
  \<open>if (cmd.timeout)\<close> sets no timer. Node truncates the delay to an integer and replaces a
  delay that is not between 1 and \<open>2^31 - 1\<close> by 1. The product is taken exactly, not with
  the rounding of doubles.
\<close>

definition milliseconds :: "int \<Rightarrow> int \<Rightarrow> int" where
  "milliseconds m e = (if 0 \<le> e + 3 then m * 10 ^ nat (e + 3) else m div 10 ^ nat (- (e + 3)))"

definition timer_delay :: "num_printer \<Rightarrow> json option \<Rightarrow> nat option" where
  "timer_delay ns t =
     (case t of
        None \<Rightarrow> None
      | Some v \<Rightarrow>
          if \<not> truthy v then None
          else (case to_number ns v of
                  JNum m e \<Rightarrow>
                    if 1 \<le> milliseconds m e \<and> milliseconds m e \<le> 2147483647
                    then Some (nat (milliseconds m e)) else Some 1
                | other \<Rightarrow> Some 1))"

subsection \<open>The child process\<close>

text \<open>
  Node's \<open>ChildProcess\<close>: \<open>kill(signal)\<close> sends the signal to a process that is still running
  and then sets \<open>killed\<close>; the flag says that a signal was delivered, not that the process
  has ended. On a process that has exited \<open>kill\<close> does nothing.
\<close>

datatype sig = SIGTERM | SIGKILL

record child =
  running :: bool
  killed :: bool
  received :: "sig list"

definition kill :: "sig \<Rightarrow> child \<Rightarrow> child" where
  "kill s c = (if running c then c\<lparr>killed := True, received := received c @ [s]\<rparr> else c)"

text \<open>
  The external program, as far as timing goes: when it exits if left alone (\<open>None\<close>: never),
  and how long after a \<open>SIGTERM\<close> it exits (\<open>None\<close>: it ignores the signal). \<open>SIGKILL\<close> ends it
  at once. Times are milliseconds since the spawn.
\<close>

record behaviour =
  natural_exit :: "nat option"
  sigterm_exit :: "nat option"

definition earliest :: "nat option \<Rightarrow> nat option \<Rightarrow> nat option" where
  "earliest a b =
     (case a of None \<Rightarrow> b | Some x \<Rightarrow> (case b of None \<Rightarrow> Some x | Some y \<Rightarrow> Some (min x y)))"

text \<open>
  The timeout callback of \<open>executeWithStdin\<close>, run at time \<open>t\<close>:
  \<^verbatim>\<open>
  timeoutHandle = setTimeout(() => {
    timedOut = true;
    proc.kill('SIGTERM');
    setTimeout(() => {
      if (!proc.killed) {
        proc.kill('SIGKILL');
      }
    }, 5000);
  }, cmd.timeout * 1000);
  \<close>
  and that of \<open>executeCodex\<close>:
  \<^verbatim>\<open>
  timeoutHandle = setTimeout(() => {
    timedOut = true;
    proc.kill('SIGTERM');
  }, cmd.timeout * 1000);
  \<close>
\<close>

definition timeout_callback :: "child \<Rightarrow> child" where
  "timeout_callback c = kill SIGTERM c"

definition grace_callback :: "child \<Rightarrow> child" where
  "grace_callback c = (if \<not> killed c then kill SIGKILL c else c)"

definition grace_window :: nat where
  "grace_window = 5000"

text \<open>
  What the handlers see of one run: when the \<open>exit\<close> event comes (\<open>None\<close>: never), whether
  \<open>timedOut\<close> is set by then, and the signals sent with their times.
\<close>

record timing =
  exit_at :: "nat option"
  timed_out :: bool
  signals :: "(nat \<times> sig) list"

text \<open>
  A run with the timer set to \<open>T\<close>. A process that exits before \<open>T\<close> is not touched. At \<open>T\<close>
  the timeout callback runs; on the stdin path the inner timer then runs the grace callback
  at \<open>T + 5000\<close> unless the process has exited by then.
\<close>

definition run_timed :: "bool \<Rightarrow> nat \<Rightarrow> behaviour \<Rightarrow> timing" where
  "run_timed codex T b =
     (if (case natural_exit b of None \<Rightarrow> False | Some t \<Rightarrow> t < T)
      then \<lparr> exit_at = natural_exit b, timed_out = False, signals = [] \<rparr>
      else
        (let c1 = timeout_callback \<lparr> running = True, killed = False, received = [] \<rparr>;
             e1 = earliest (natural_exit b) (map_option (\<lambda>d. T + d) (sigterm_exit b))
         in if codex then \<lparr> exit_at = e1, timed_out = True, signals = [(T, SIGTERM)] \<rparr>
            else if (case e1 of None \<Rightarrow> False | Some x \<Rightarrow> x \<le> T + grace_window)
            then \<lparr> exit_at = e1, timed_out = True, signals = [(T, SIGTERM)] \<rparr>
            else if SIGKILL \<in> set (received (grace_callback c1))
            then \<lparr> exit_at = Some (T + grace_window), timed_out = True,
                   signals = [(T, SIGTERM), (T + grace_window, SIGKILL)] \<rparr>
            else \<lparr> exit_at = e1, timed_out = True, signals = [(T, SIGTERM)] \<rparr>))"

definition run_timing :: "bool \<Rightarrow> nat option \<Rightarrow> behaviour \<Rightarrow> timing" where
  "run_timing codex delay b =
     (case delay of
        None \<Rightarrow> \<lparr> exit_at = natural_exit b, timed_out = False, signals = [] \<rparr>
      | Some T \<Rightarrow> run_timed codex T b)"

text \<open>
  \<open>executeWithStdin(cmd)\<close> and \<open>executeCodex(cmd)\<close> as a whole: when the promise settles and
  how, or \<open>None\<close> when it never does. The promise settles only in the \<open>exit\<close> handler (and in
  the \<open>error\<close> handler, when the process cannot be spawned at all, at time 0).
\<close>

record program =
  spawn_fails :: "string option"
  timing_of :: behaviour
  out :: string
  err :: string
  exit_code :: "int option"
  exit_signal :: "string option"

definition run_command ::
  "xenv \<Rightarrow> string \<Rightarrow> command \<Rightarrow> program \<Rightarrow> world \<Rightarrow> (nat \<times> outcome) option \<times> world" where
  "run_command xe provider cmd p w =
     (case spawn_fails p of
        Some msg \<Rightarrow> (Some (0, Rejected (Error msg)), w)
      | None \<Rightarrow>
          (let tm = run_timing (provider = ''codex'') (timer_delay (number_text xe) (timeout cmd)) (timing_of p)
           in case exit_at tm of
                None \<Rightarrow> (None, w)
              | Some t \<Rightarrow>
                  (case on_exit xe provider cmd
                          \<lparr> stdout = out p, stderr = err p, code = exit_code p,
                            signal = exit_signal p, timedOut = timed_out tm \<rparr> w of
                     (r, w1) \<Rightarrow> (Some (t, r), w1))))"

text \<open>
  \<^verbatim>\<open>
  async execute(provider, options = {}) {
    const cmd = await this.commandBuilder.buildCommand(provider, options);
    if (!cmd) { throw new Error(`Provider ${provider} is disabled or not configured`); }
    if (this.dryRun) { return { exitCode: 0, stdout: '', stderr: '' }; }
    if (provider === 'codex') { return await this.executeCodex(cmd); }
    else { return await this.executeWithStdin(cmd); }
  }
  \<close>
\<close>

definition execute ::
  "xenv \<Rightarrow> builder_env \<Rightarrow> bool \<Rightarrow> string \<Rightarrow> program \<Rightarrow> world \<Rightarrow> (nat \<times> outcome) option \<times> world" where
  "execute xe benv dryRun provider p w =
     (case buildCommand benv provider of
        Inl e \<Rightarrow> (Some (0, Rejected e), w)
      | Inr None \<Rightarrow>
          (Some (0, Rejected (Error (''Provider '' @ provider @ '' is disabled or not configured''))), w)
      | Inr (Some cmd) \<Rightarrow>
          if dryRun
          then (Some (0, Resolved \<lparr> exitCode = 0, res_stdout = [], res_stderr = [], res_signal = None \<rparr>), w)
          else run_command xe provider cmd p w)"


section \<open>Sample environments\<close>










definition w2 :: world where
  "w2 = \<lparr> files = (\<lambda>path. None)
             ([''opt'', ''review-pipeline'', ''workspace'', ''reports'', ''codex-cli.raw.txt'']
                \<mapsto> Text ''{\"findings\":[]}''),
           log = [] \<rparr>"






section \<open>Auxiliary facts\<close>




































































































section \<open>Properties of the configuration loader and the command builder\<close>

text \<open>
  C10. A provider identifier with no entry in the configuration's providers map is reported
  enabled: whether the map is missing altogether or merely lacks the key, and whatever the
  identifier is. Only an entry whose own \<open>enabled\<close> is the boolean \<open>false\<close> disables.
\<close>

theorem isProviderEnabled_absent:
  "((case providers cfg of None \<Rightarrow> True | Some ps \<Rightarrow> map_of ps provider = None)
      \<longrightarrow> isProviderEnabled cfg provider)
   \<and> (\<not> isProviderEnabled cfg provider \<longleftrightarrow>
        (\<exists>ps v. providers cfg = Some ps \<and> map_of ps provider = Some v
                \<and> field v ''enabled'' = Some (JBool False)))"
  by (auto simp: isProviderEnabled_def provider_entry_def lookup_def split: option.splits)

theorem isProviderEnabled_absent_witness:
  "map_of (the (providers minimal_defaults)) ''gemnii'' = None
   \<and> isProviderEnabled minimal_defaults ''gemnii''
   \<and> isProviderEnabled (minimal_defaults\<lparr>providers := None\<rparr>) ''claude''
   \<and> \<not> isProviderEnabled
         (minimal_defaults\<lparr>providers := Some [(''claude'', JObj [(''enabled'', JBool False)])]\<rparr>)
         ''claude''"
  using isProviderEnabled_absent [where cfg = minimal_defaults and provider = "''gemnii''"]
    isProviderEnabled_absent [where cfg = "minimal_defaults\<lparr>providers := None\<rparr>"
      and provider = "''claude''"]
    isProviderEnabled_absent [where provider = "''claude''" and
      cfg = "minimal_defaults\<lparr>providers := Some [(''claude'', JObj [(''enabled'', JBool False)])]\<rparr>"]
  by (simp add: minimal_defaults_def)

text \<open>
  C4. For the identifier \<open>unknown\<close>, which is outside the whitelist and has no entry in the
  loaded configuration, \<open>buildCommand\<close> does not return \<open>null\<close>: the enabled check lets the
  identifier through, and \<open>getProviderConfig\<close>, called before the whitelist test, throws.
\<close>

theorem buildCommand_unknown_throws:
  "buildCommand \<lparr> load_configuration = Inr minimal_defaults, build_provider_command = b \<rparr> ''unknown''
     = Inl (Error ''Provider 'unknown' not configured'')"
  by (simp add: buildCommand_def isProviderEnabled_def getProviderConfig_def provider_entry_def
      lookup_def minimal_defaults_def object_prototype_keys_def not_configured_def)

section \<open>The normalizer on concrete outputs\<close>

text \<open>
  C7. A report that names its own tool keeps that name. With \<open>TOOL=claude-code\<close> and
  \<open>MODEL=opus\<close> in the environment, the output
  \<open>{"tool":"evil","model":"gpt","findings":[]}\<close> is normalized to a report whose tool is
  still \<open>evil\<close>: \<open>main\<close> computes \<open>json.tool || process.env.TOOL\<close> and hands the result to
  \<open>normalizeReport\<close>, which then assigns the self-reported value to itself. The model is
  overwritten, as \<open>MODEL\<close> is set.
\<close>

theorem main_keeps_self_reported_tool:
  "main \<lparr> penv = (\<lambda>name. None)(''TOOL'' \<mapsto> ''claude-code'', ''MODEL'' \<mapsto> ''opus''),
          now = t, argv_file = None, num_text = ns \<rparr>
        ''{\"tool\":\"evil\",\"model\":\"gpt\",\"findings\":[]}''
   = Printed (JObj
       [(''tool'', JStr ''evil''), (''model'', JStr ''opus''), (''findings'', JArr []),
        (''timestamp'', JStr t),
        (''pr'', JObj [(''repo'', JStr ''unknown''), (''number'', JNum 0 0), (''head_sha'', JStr []),
                       (''branch'', JStr ''unknown''), (''link'', JStr ''https://github.com/'')]),
        (''assumptions'', JArr []), (''metrics'', JObj []), (''evidence'', JArr []),
        (''tests'', JObj [(''executed'', JBool False), (''command'', JNull), (''exit_code'', JNull),
                          (''summary'', JStr ''Tests not executed'')]),
        (''exit_criteria'', JObj [(''ready_for_pr'', JBool False), (''reasons'', JArr [])]),
        (''summary'', JStr ''No summary provided'')])"
  by code_simp

text \<open>
  C8. For the text \<open>{"findings": [{"severity": "hig\<close>, cut in the middle of a string, the
  recovery closes the string and appends three closers, but all three are braces: the
  heuristic compares the last \<open>{\<close> with the last \<open>[\<close> of the text, which the appended closers
  never change. The recovered text \<open>{"findings": [{"severity": "hig"}}}\<close> does not parse, and
  the function returns the \<open>truncated_json\<close> object with the text as payload.
\<close>

theorem attemptJSONRecovery_truncated:
  "recovered_text ''{\"findings\": [{\"severity\": \"hig'' = ''{\"findings\": [{\"severity\": \"hig\"}}}''
   \<and> JSON_parse ''{\"findings\": [{\"severity\": \"hig\"}}}'' = None
   \<and> attemptJSONRecovery ''{\"findings\": [{\"severity\": \"hig'' =
         JObj [(''error'', JStr ''truncated_json''),
               (''partial_data'', JStr ''{\"findings\": [{\"severity\": \"hig''),
               (''recovery_attempted'', JBool True)]"
  by code_simp

section \<open>Timeouts\<close>

text \<open>
  C5. A codex run with a timeout of 10 seconds, on a process that ignores \<open>SIGTERM\<close> and
  does not exit by itself: the only signal ever sent is the \<open>SIGTERM\<close> at 10 seconds, the
  \<open>exit\<close> event never comes, and the promise of \<open>executeCodex\<close> never settles. On the stdin
  path the same process gets no \<open>SIGKILL\<close> either: the grace callback tests \<open>proc.killed\<close>,
  which the delivered \<open>SIGTERM\<close> has already set.
\<close>

theorem codex_timeout_never_settles:
  "run_timing True (Some 10000) \<lparr> natural_exit = None, sigterm_exit = None \<rparr>
     = \<lparr> exit_at = None, timed_out = True, signals = [(10000, SIGTERM)] \<rparr>
   \<and> run_command xe ''codex'' (cmd\<lparr>timeout := Some (JNum 10 0)\<rparr>)
        (p\<lparr>spawn_fails := None, timing_of := \<lparr> natural_exit = None, sigterm_exit = None \<rparr>\<rparr>) w
     = (None, w)
   \<and> run_timing False (Some 10000) \<lparr> natural_exit = None, sigterm_exit = None \<rparr>
     = \<lparr> exit_at = None, timed_out = True, signals = [(10000, SIGTERM)] \<rparr>"
  by (simp add: run_timing_def run_timed_def run_command_def timer_delay_def num_is_zero_def
      milliseconds_def earliest_def timeout_callback_def grace_callback_def kill_def)


section \<open>Severity and category of normalized findings\<close>





section \<open>Output paths\<close>









section \<open>The gate\<close>



section \<open>Normalization of an arbitrary text\<close>




end
